theory Spec2Isabelle
  imports Complex_Main "HOL-Library.Word" "HOL-Library.Multiset" "HOL-Library.List_Lexorder"
    "HOL-Library.Char_ord"
    "HOL-Library.Product_Lexorder" "HOL-Library.Log_Nat"
begin

unbundle bit_operations_syntax

section \<open>Style bits (TTFontCLI.py)\<close>

text \<open>
  The two bit fields the style operations of \<open>TTFontCLI\<close> read and write:
  \<open>self['OS/2'].fsSelection\<close> and \<open>self['head'].macStyle\<close>. Both are Python
  integers, hence \<open>int\<close>. Bit positions are the literals of the source.
\<close>

record style_bits =
  fsSelection :: int
  macStyle :: int

definition is_nth_bit_set :: "int \<Rightarrow> nat \<Rightarrow> bool" where
  "is_nth_bit_set x n = (if x AND push_bit n 1 \<noteq> 0 then True else False)"

definition set_nth_bit :: "int \<Rightarrow> nat \<Rightarrow> int" where
  "set_nth_bit x n = x OR push_bit n 1"

definition unset_nth_bit :: "int \<Rightarrow> nat \<Rightarrow> int" where
  "unset_nth_bit x n = x AND NOT (push_bit n 1)"

definition isBold :: "style_bits \<Rightarrow> bool" where
  "isBold s = (is_nth_bit_set (macStyle s) 0 \<and> is_nth_bit_set (fsSelection s) 5)"

definition isItalic :: "style_bits \<Rightarrow> bool" where
  "isItalic s = (is_nth_bit_set (macStyle s) 1 \<and> is_nth_bit_set (fsSelection s) 0)"

definition isOblique :: "style_bits \<Rightarrow> bool" where
  "isOblique s = is_nth_bit_set (fsSelection s) 9"

definition isRegular :: "style_bits \<Rightarrow> bool" where
  "isRegular s = is_nth_bit_set (fsSelection s) 6"

definition setBoldBits :: "style_bits \<Rightarrow> style_bits" where
  "setBoldBits s =
     (let s1 = s\<lparr>fsSelection := set_nth_bit (fsSelection s) 5\<rparr>
      in s1\<lparr>macStyle := set_nth_bit (macStyle s1) 0\<rparr>)"

definition setItalicBits :: "style_bits \<Rightarrow> style_bits" where
  "setItalicBits s =
     (let s1 = s\<lparr>fsSelection := set_nth_bit (fsSelection s) 0\<rparr>
      in s1\<lparr>macStyle := set_nth_bit (macStyle s1) 1\<rparr>)"

definition setRegularBit :: "style_bits \<Rightarrow> style_bits" where
  "setRegularBit s = s\<lparr>fsSelection := set_nth_bit (fsSelection s) 6\<rparr>"

definition clearBoldBits :: "style_bits \<Rightarrow> style_bits" where
  "clearBoldBits s =
     (let s1 = s\<lparr>fsSelection := unset_nth_bit (fsSelection s) 5\<rparr>
      in s1\<lparr>macStyle := unset_nth_bit (macStyle s1) 0\<rparr>)"

definition clearItalicBits :: "style_bits \<Rightarrow> style_bits" where
  "clearItalicBits s =
     (let s1 = s\<lparr>fsSelection := unset_nth_bit (fsSelection s) 0\<rparr>
      in s1\<lparr>macStyle := unset_nth_bit (macStyle s1) 1\<rparr>)"

definition clearRegularBit :: "style_bits \<Rightarrow> style_bits" where
  "clearRegularBit s = s\<lparr>fsSelection := unset_nth_bit (fsSelection s) 6\<rparr>"

definition setBold :: "style_bits \<Rightarrow> style_bits" where
  "setBold s = clearRegularBit (setBoldBits s)"

definition setItalic :: "style_bits \<Rightarrow> style_bits" where
  "setItalic s = clearRegularBit (setItalicBits s)"

definition unsetBold :: "style_bits \<Rightarrow> style_bits" where
  "unsetBold s =
     (let s1 = clearBoldBits s
      in if \<not> isItalic s1 then setRegularBit s1 else s1)"

definition unsetItalic :: "style_bits \<Rightarrow> style_bits" where
  "unsetItalic s =
     (let s1 = clearItalicBits s
      in if \<not> isBold s1 then setRegularBit s1 else s1)"

definition setRegular :: "style_bits \<Rightarrow> style_bits" where
  "setRegular s = clearItalicBits (clearBoldBits (setRegularBit s))"

definition unsetOblique :: "style_bits \<Rightarrow> style_bits" where
  "unsetOblique s = s\<lparr>fsSelection := unset_nth_bit (fsSelection s) 9\<rparr>"

text \<open>
  The predicate of the style invariant: the regular bit is set exactly when the font is
  neither bold nor italic, bold and italic being read as \<open>isBold\<close> and \<open>isItalic\<close>
  read them (both the OS/2 bit and the head bit set).
\<close>

definition style_consistent :: "style_bits \<Rightarrow> bool" where
  "style_consistent s = (isRegular s = (\<not> isBold s \<and> \<not> isItalic s))"

section \<open>Vertical metrics (TTFontCLI.modifyLinegapPercent)\<close>

text \<open>
  The fields of the OS/2, hhea and head tables that \<open>modifyLinegapPercent\<close> reads
  and writes. They are Python integers once the font is loaded.
\<close>

record vmetrics =
  sTypoAscender :: int
  sTypoDescender :: int
  sTypoLineGap :: int
  usWinAscent :: int
  usWinDescent :: int
  ascent :: int
  descent :: int
  lineGap :: int
  unitsPerEm :: int

text \<open>
  Python floats are binary64 numbers. A finite float is the rational number it denotes,
  and every arithmetic operation gives the float nearest to the exact result, ties going
  to the even significand (\<open>float_round\<close>). \<open>binade x\<close> is the exponent \<open>e\<close> with
  \<open>2 ^ e \<le> x < 2 ^ (e + 1)\<close> for a positive \<open>x\<close>; a float has 53 significant bits
  and no bit below \<open>2 ^ - 1074\<close>. A result of magnitude \<open>2 ^ 1024\<close> or more (its
  binade is 1024 or more) is not a finite float (\<open>None\<close>): the conversion of an integer
  to a float raises \<open>OverflowError\<close> then, and a product becomes infinite, on which
  \<open>int\<close> raises \<open>OverflowError\<close>.
\<close>

definition pow2 :: "int \<Rightarrow> rat" where
  "pow2 e = (if 0 \<le> e then 2 ^ nat e else 1 / 2 ^ nat (- e))"

definition binade :: "rat \<Rightarrow> int" where
  "binade x =
     (if 1 \<le> x then bitlen \<lfloor>x\<rfloor> - 1
      else (let k = bitlen \<lfloor>1 / x\<rfloor> - 1 in if 1 / x = pow2 k then - k else - k - 1))"

definition round_half_even :: "rat \<Rightarrow> int" where
  "round_half_even x =
     (let n = \<lfloor>x\<rfloor>; r = x - of_int n
      in if r < 1 / 2 then n else if 1 / 2 < r then n + 1 else if even n then n else n + 1)"

definition float_round :: "rat \<Rightarrow> rat option" where
  "float_round x =
     (if x = 0 then Some 0
      else (let e = max (binade \<bar>x\<bar> - 52) (- 1074);
                y = of_int (round_half_even (x / pow2 e)) * pow2 e
            in if 1024 \<le> binade \<bar>y\<bar> then None else Some y))"

text \<open>
  The conversion of an integer operand to a float, and \<open>int(x)\<close> on a float, which
  truncates towards zero.
\<close>

definition py_float :: "int \<Rightarrow> rat option" where
  "py_float n = float_round (of_int n)"

definition py_int :: "rat \<Rightarrow> int" where
  "py_int x = (if 0 \<le> x then \<lfloor>x\<rfloor> else \<lceil>x\<rceil>)"

text \<open>
  \<open>factor = 1.0 * int(percent) / 100\<close> and
  \<open>line_spacing_units = int(factor * units_per_em)\<close>: the product \<open>1.0 * int(percent)\<close>
  is the float of the integer, the quotient and the product are rounded.
\<close>

definition line_spacing_units_of :: "int \<Rightarrow> int \<Rightarrow> int option" where
  "line_spacing_units_of percent units_per_em =
     Option.bind (py_float percent) (\<lambda>p.
     Option.bind (float_round (p / 100)) (\<lambda>factor.
     Option.bind (py_float units_per_em) (\<lambda>u.
     Option.bind (float_round (factor * u)) (\<lambda>x. Some (py_int x)))))"

text \<open>\<open>int(0.5 * d)\<close> and \<open>int(a + 0.5 * l)\<close> for integers \<open>d\<close>, \<open>a\<close> and \<open>l\<close>.\<close>

definition int_half :: "int \<Rightarrow> int option" where
  "int_half d =
     Option.bind (py_float d) (\<lambda>x.
     Option.bind (float_round (1 / 2 * x)) (\<lambda>h. Some (py_int h)))"

definition int_plus_half :: "int \<Rightarrow> int \<Rightarrow> int option" where
  "int_plus_half a l =
     Option.bind (py_float l) (\<lambda>x.
     Option.bind (float_round (1 / 2 * x)) (\<lambda>h.
     Option.bind (py_float a) (\<lambda>y.
     Option.bind (float_round (y + h)) (\<lambda>s. Some (py_int s)))))"

text \<open>
  \<open>modifyLinegapPercent\<close>. An exception anywhere in the body is caught by the
  \<open>except\<close> clause, which prints it and ends the program with \<open>sys.exit(1)\<close>: the
  result is \<open>None\<close> and nothing is written.
\<close>

definition modifyLinegapPercent :: "vmetrics \<Rightarrow> int \<Rightarrow> vmetrics option" where
  "modifyLinegapPercent m percent =
     (let os2_typo_ascender = sTypoAscender m;
          os2_typo_descender = sTypoDescender m;
          os2_typo_linegap = sTypoLineGap m;
          hhea_ascent = ascent m;
          hhea_descent = descent m;
          units_per_em = unitsPerEm m;
          os2_typo_ascdesc_delta = os2_typo_ascender + - os2_typo_descender;
          hhea_ascdesc_delta = hhea_ascent + - hhea_descent
      in case line_spacing_units_of percent units_per_em of
           None \<Rightarrow> None
         | Some line_spacing_units \<Rightarrow>
            (let total_height = line_spacing_units + units_per_em;
                 delta_height = total_height - hhea_ascdesc_delta
             in case int_half delta_height of
                  None \<Rightarrow> None
                | Some upper_lower_add_units \<Rightarrow>
                   (let hhea_linegap = 0
                    in if os2_typo_linegap = 0 \<and> os2_typo_ascdesc_delta > units_per_em then
                         (let hhea_ascent' = hhea_ascent + upper_lower_add_units;
                              hhea_descent' = hhea_descent - upper_lower_add_units
                          in Some (m\<lparr>lineGap := hhea_linegap,
                               sTypoAscender := os2_typo_ascender + upper_lower_add_units,
                               sTypoDescender := os2_typo_descender - upper_lower_add_units,
                               sTypoLineGap := os2_typo_linegap,
                               usWinAscent := hhea_ascent',
                               usWinDescent := - hhea_descent',
                               ascent := hhea_ascent',
                               descent := hhea_descent'\<rparr>))
                       else if os2_typo_linegap = 0 \<and> os2_typo_ascdesc_delta = units_per_em then
                         (let hhea_ascent' = hhea_ascent + upper_lower_add_units;
                              hhea_descent' = hhea_descent - upper_lower_add_units
                          in Some (m\<lparr>lineGap := hhea_linegap,
                               sTypoAscender := os2_typo_ascender,
                               sTypoDescender := os2_typo_descender,
                               sTypoLineGap := os2_typo_linegap,
                               usWinAscent := hhea_ascent',
                               usWinDescent := - hhea_descent',
                               ascent := hhea_ascent',
                               descent := hhea_descent'\<rparr>))
                       else
                         (let os2_typo_linegap' = line_spacing_units
                          in case int_plus_half os2_typo_ascender os2_typo_linegap' of
                               None \<Rightarrow> None
                             | Some hhea_ascent' \<Rightarrow>
                                (let hhea_descent' = - (total_height - hhea_ascent')
                                 in Some (m\<lparr>lineGap := hhea_linegap,
                                      sTypoAscender := os2_typo_ascender,
                                      sTypoDescender := os2_typo_descender,
                                      sTypoLineGap := os2_typo_linegap',
                                      usWinAscent := hhea_ascent',
                                      usWinDescent := - hhea_descent',
                                      ascent := hhea_ascent',
                                      descent := hhea_descent'\<rparr>))))))"

text \<open>
  What the claim on the vertical span promises: the units per em plus the integer
  truncation of \<open>percent / 100\<close> times the units per em.
\<close>

definition promised_span :: "vmetrics \<Rightarrow> int \<Rightarrow> int" where
  "promised_span m percent =
     unitsPerEm m + py_int (of_int percent / 100 * of_int (unitsPerEm m))"

text \<open>
  Two fonts with 1000 units per em: one with the Adobe metrics layout (no typographic
  line gap, typographic span equal to the units per em) and an hhea span of 1101, and one
  with a typographic line gap.
\<close>

definition adobe_font :: vmetrics where
  "adobe_font = \<lparr>sTypoAscender = 800, sTypoDescender = - 200, sTypoLineGap = 0,
     usWinAscent = 900, usWinDescent = 201, ascent = 900, descent = - 201, lineGap = 90,
     unitsPerEm = 1000\<rparr>"

definition gap_font :: vmetrics where
  "gap_font = \<lparr>sTypoAscender = 800, sTypoDescender = - 200, sTypoLineGap = 200,
     usWinAscent = 900, usWinDescent = 300, ascent = 900, descent = - 300, lineGap = 0,
     unitsPerEm = 1000\<rparr>"

section \<open>Outline repair (contours.py)\<close>

text \<open>
  Exceptions of the Python source as values. \<open>RemoveOverlapsError\<close> is the class the
  module declares and \<open>fix_true_type_contours\<close> catches.
\<close>

datatype py_error = AssertionError | KeyError | ValueError | NotImplementedError
  | RemoveOverlapsError

text \<open>
  A path of the boolean path engine iterates as pairs of a verb and its points. The
  coordinate type \<open>'c\<close> stands for Python's floats: this module never computes on a
  coordinate itself, it only hands coordinates to the rounding function.
\<close>

datatype verb = MOVE | LINE | QUAD | CUBIC | CLOSE

type_synonym 'c segment = "verb \<times> ('c \<times> 'c) list"

type_synonym 'c path = "'c segment list"

record 'c component =
  glyphName :: string
  transformation :: "'c \<times> 'c \<times> 'c \<times> 'c \<times> 'c \<times> 'c"

text \<open>
  A glyph of the glyf table: \<open>numberOfContours\<close> is \<open>-1\<close> for a composite glyph,
  whose \<open>components\<close> are then meaningful; \<open>program\<close> is the bytecode of the hinting
  program; \<open>outline\<close> is the outline data, which only the drawing pens read and write.
\<close>

record 'c glyph =
  numberOfContours :: int
  components :: "'c component list"
  program :: "nat list"
  xMin :: int
  yMin :: int
  xMax :: int
  yMax :: int
  outline :: "'c path"

type_synonym 'c glyf_table = "string \<rightharpoonup> 'c glyph"

type_synonym hmtx_table = "string \<rightharpoonup> int \<times> int"

text \<open>
  The operations of the font library and of the boolean path engine that this module
  calls. Their code is not part of this repository; the model takes them as parameters:
  \<^item> \<open>draw gs n\<close>: the path that \<open>gs[n].draw(pen)\<close> leaves in a path pen over the
    glyph set \<open>gs\<close> (\<open>None\<close>: the lookup raises \<open>KeyError\<close>);
  \<^item> \<open>simplify p\<close>: \<open>pathops.simplify(p, clockwise=True)\<close> (\<open>None\<close>: it raises
    \<open>PathOpsError\<close>);
  \<^item> \<open>intersects p q\<close>: the truth value of
    \<open>pathops.op(p, q, INTERSECTION, fix_winding=True, keep_starting_points=False)\<close>;
  \<^item> \<open>transform t p\<close>: \<open>p.transform(*t)\<close>;
  \<^item> \<open>contours p\<close>: the contours of \<open>p\<close>, each as the tuple of its segments;
  \<^item> \<open>otRound\<close>: the rounding function of the font library;
  \<^item> \<open>pen_glyph p\<close>: the glyph a \<open>TTGlyphPen(glyphSet=None)\<close> returns after
    \<open>p.draw(pen)\<close>;
  \<^item> \<open>calcBounds g\<close>: the bounds \<open>(xMin, yMin, xMax, yMax)\<close> that
    \<open>g.recalcBounds(glyfTable=None)\<close> computes from the outline of \<open>g\<close>;
  \<^item> \<open>maxComponentDepth t g\<close>: \<open>g.getCompositeMaxpValues(t).maxComponentDepth\<close>.
\<close>

record 'c fontlib =
  draw :: "'c glyf_table \<Rightarrow> string \<Rightarrow> 'c path option"
  simplify :: "'c path \<Rightarrow> 'c path option"
  intersects :: "'c path \<Rightarrow> 'c path \<Rightarrow> bool"
  transform :: "'c \<times> 'c \<times> 'c \<times> 'c \<times> 'c \<times> 'c \<Rightarrow> 'c path \<Rightarrow> 'c path"
  contours :: "'c path \<Rightarrow> 'c path list"
  otRound :: "'c \<Rightarrow> 'c"
  pen_glyph :: "'c path \<Rightarrow> 'c glyph"
  calcBounds :: "'c glyph \<Rightarrow> int \<times> int \<times> int \<times> int"
  maxComponentDepth :: "'c glyf_table \<Rightarrow> 'c glyph \<Rightarrow> int"

definition isComposite :: "'c glyph \<Rightarrow> bool" where
  "isComposite g = (numberOfContours g = - 1)"

text \<open>\<open>glyph.removeHinting()\<close> leaves the glyph with an empty program.\<close>

definition removeHinting :: "'c glyph \<Rightarrow> 'c glyph" where
  "removeHinting g = g\<lparr>program := []\<rparr>"

text \<open>\<open>glyph.recalcBounds(glyfTable=None)\<close> stores the computed bounds in the glyph.\<close>

definition recalcBounds :: "'c fontlib \<Rightarrow> 'c glyph \<Rightarrow> 'c glyph" where
  "recalcBounds L g =
     (case calcBounds L g of
        (x0, y0, x1, y1) \<Rightarrow> g\<lparr>xMin := x0, yMin := y0, xMax := x1, yMax := y1\<rparr>)"

definition skPathFromGlyph :: "'c fontlib \<Rightarrow> string \<Rightarrow> 'c glyf_table \<Rightarrow> py_error + 'c path" where
  "skPathFromGlyph L gname glyphSet =
     (case draw L glyphSet gname of None \<Rightarrow> Inl KeyError | Some p \<Rightarrow> Inr p)"

definition skPathFromGlyphComponent ::
  "'c fontlib \<Rightarrow> 'c component \<Rightarrow> 'c glyf_table \<Rightarrow> py_error + 'c path" where
  "skPathFromGlyphComponent L c glyphSet =
     (case skPathFromGlyph L (glyphName c) glyphSet of
        Inl e \<Rightarrow> Inl e
      | Inr p \<Rightarrow> Inr (transform L (transformation c) p))"

text \<open>\<open>itertools.combinations(range(n), 2)\<close>: the pairs \<open>i < j\<close> in lexicographic order.\<close>

definition combinations2 :: "nat \<Rightarrow> (nat \<times> nat) list" where
  "combinations2 n = concat (map (\<lambda>i. map (\<lambda>j. (i, j)) [Suc i ..< n]) [0 ..< n])"

text \<open>
  The \<open>any(...)\<close> of \<open>componentsOverlap\<close>: the generator is consumed pair by pair and
  stops at the first intersecting pair; a component path is computed when a pair first
  needs it (the cache \<open>component_paths\<close> only saves recomputation).
\<close>

fun any_intersection ::
  "'c fontlib \<Rightarrow> 'c component list \<Rightarrow> 'c glyf_table \<Rightarrow> (nat \<times> nat) list \<Rightarrow> py_error + bool" where
  "any_intersection L cs glyphSet [] = Inr False"
| "any_intersection L cs glyphSet ((i, j) # ps) =
     (case skPathFromGlyphComponent L (cs ! i) glyphSet of
        Inl e \<Rightarrow> Inl e
      | Inr path_i \<Rightarrow>
         (case skPathFromGlyphComponent L (cs ! j) glyphSet of
            Inl e \<Rightarrow> Inl e
          | Inr path_j \<Rightarrow>
             if intersects L path_i path_j then Inr True
             else any_intersection L cs glyphSet ps))"

definition componentsOverlap :: "'c fontlib \<Rightarrow> 'c glyph \<Rightarrow> 'c glyf_table \<Rightarrow> py_error + bool" where
  "componentsOverlap L g glyphSet =
     (if \<not> isComposite g then Inl ValueError
      else if length (components g) < 2 then Inr False
      else any_intersection L (components g) glyphSet (combinations2 (length (components g))))"

definition ttfGlyphFromSkPath :: "'c fontlib \<Rightarrow> 'c path \<Rightarrow> py_error + 'c glyph" where
  "ttfGlyphFromSkPath L p =
     (let g = pen_glyph L p
      in if isComposite g then Inl AssertionError else Inr (recalcBounds L g))"

definition round_path :: "'c path \<Rightarrow> ('c \<Rightarrow> 'c) \<Rightarrow> 'c path" where
  "round_path p rnd = map (\<lambda>(v, points). (v, map (\<lambda>pt. (rnd (fst pt), rnd (snd pt))) points)) p"

text \<open>
  What \<open>_simplify\<close> does besides returning: its calls of the path engine's
  \<open>simplify\<close>, with the path handed over, and the messages it prints for a glyph.
\<close>

datatype 'c event = SimplifyCall "'c path" | WarningMessage string | ErrorMessage string

definition simplify_path :: "'c fontlib \<Rightarrow> 'c path \<Rightarrow> string \<Rightarrow> 'c event list \<times> (py_error + 'c path)" where
  "simplify_path L p debugGlyphName =
     (case simplify L p of
        Some q \<Rightarrow> ([SimplifyCall p], Inr q)
      | None \<Rightarrow>
         (let p' = round_path p (otRound L)
          in case simplify L p' of
               Some q \<Rightarrow>
                 ([SimplifyCall p, SimplifyCall p', WarningMessage debugGlyphName], Inr q)
             | None \<Rightarrow>
                 ([SimplifyCall p, SimplifyCall p', ErrorMessage debugGlyphName],
                  Inl AssertionError)))"

text \<open>
  \<open>removeTTGlyphOverlaps\<close> returns its flag together with the glyf and hmtx tables as
  it leaves them. The glyph set is the view of a glyf table that the drawing reads.
\<close>

definition removeTTGlyphOverlaps ::
  "'c fontlib \<Rightarrow> string \<Rightarrow> 'c glyf_table \<Rightarrow> 'c glyf_table \<Rightarrow> hmtx_table \<Rightarrow> bool \<Rightarrow>
     py_error + (bool \<times> 'c glyf_table \<times> hmtx_table)" where
  "removeTTGlyphOverlaps L gname glyphSet glyfTable hmtxTable remove_hinting =
     (case glyfTable gname of
        None \<Rightarrow> Inl KeyError
      | Some g \<Rightarrow>
         (let unchanged =
            Inr (False,
                 (if remove_hinting then glyfTable(gname \<mapsto> removeHinting g) else glyfTable),
                 hmtxTable)
          in case (if numberOfContours g > 0 then Inr True
                   else if isComposite g then componentsOverlap L g glyphSet
                   else Inr False) of
               Inl e \<Rightarrow> Inl e
             | Inr False \<Rightarrow> unchanged
             | Inr True \<Rightarrow>
                (case skPathFromGlyph L gname glyphSet of
                   Inl e \<Rightarrow> Inl e
                 | Inr p \<Rightarrow>
                    (case snd (simplify_path L p gname) of
                       Inl e \<Rightarrow> Inl e
                     | Inr p2 \<Rightarrow>
                        if set (contours L p) \<noteq> set (contours L p2) then
                          (case ttfGlyphFromSkPath L p2 of
                             Inl e \<Rightarrow> Inl e
                           | Inr g' \<Rightarrow>
                              if program g' \<noteq> [] then Inl AssertionError
                              else
                                (case hmtxTable gname of
                                   None \<Rightarrow> Inl KeyError
                                 | Some (width, lsb) \<Rightarrow>
                                    Inr (True, glyfTable(gname \<mapsto> g'),
                                      (if lsb \<noteq> xMin g' then hmtxTable(gname \<mapsto> (width, xMin g'))
                                       else hmtxTable))))
                        else unchanged))))"

text \<open>
  The part of a font that \<open>fix_true_type_contours\<close> uses: the glyf and hmtx tables
  (\<open>None\<close> when the font has no such table) and the glyph order.
\<close>

record 'c ttfont =
  glyf :: "'c glyf_table option"
  hmtx :: "hmtx_table option"
  glyphOrder :: "string list"

text \<open>
  The sort key of a glyph name: the maximal component depth of a composite glyph, 0 for any
  other glyph, then the name. Python compares the tuples lexicographically and the names by
  code point, which is the order of \<open>int \<times> string\<close> here.
\<close>

definition component_depth :: "'c fontlib \<Rightarrow> 'c glyf_table \<Rightarrow> 'c glyph \<Rightarrow> int" where
  "component_depth L glyfTable g =
     (if isComposite g then maxComponentDepth L glyfTable g else 0)"

fun glyph_keys ::
  "'c fontlib \<Rightarrow> 'c glyf_table \<Rightarrow> string list \<Rightarrow> py_error + (int \<times> string) list" where
  "glyph_keys L glyfTable [] = Inr []"
| "glyph_keys L glyfTable (n # ns) =
     (case glyfTable n of
        None \<Rightarrow> Inl KeyError
      | Some g \<Rightarrow>
         (case glyph_keys L glyfTable ns of
            Inl e \<Rightarrow> Inl e
          | Inr ks \<Rightarrow> Inr ((component_depth L glyfTable g, n) # ks)))"

text \<open>
  The loop over the sorted names. Besides the tables and the set \<open>modified\<close> it
  returns, in \<open>trace\<close>, the names it has handed to \<open>removeTTGlyphOverlaps\<close>, in the
  order of the calls. An exception other than \<open>RemoveOverlapsError\<close> leaves the loop.
\<close>

fun process_glyphs ::
  "'c fontlib \<Rightarrow> string list \<Rightarrow> 'c glyf_table \<Rightarrow> hmtx_table \<Rightarrow> bool \<Rightarrow> bool \<Rightarrow> string set \<Rightarrow>
     string list \<Rightarrow> string list \<times> (py_error + ('c glyf_table \<times> hmtx_table \<times> string set))" where
  "process_glyphs L [] glyfTable hmtxTable remove_hinting ignoreErrors modified trace =
     (trace, Inr (glyfTable, hmtxTable, modified))"
| "process_glyphs L (n # ns) glyfTable hmtxTable remove_hinting ignoreErrors modified trace =
     (case removeTTGlyphOverlaps L n glyfTable glyfTable hmtxTable remove_hinting of
        Inr (changed, glyfTable', hmtxTable') \<Rightarrow>
          process_glyphs L ns glyfTable' hmtxTable' remove_hinting ignoreErrors
            (if changed then insert n modified else modified) (trace @ [n])
      | Inl e \<Rightarrow>
          if e = RemoveOverlapsError then
            (if \<not> ignoreErrors then (trace @ [n], Inl e)
             else process_glyphs L ns glyfTable hmtxTable remove_hinting ignoreErrors
                    modified (trace @ [n]))
          else (trace @ [n], Inl e))"

definition fix_true_type_contours ::
  "'c fontlib \<Rightarrow> 'c ttfont \<Rightarrow> string list option \<Rightarrow> bool \<Rightarrow> bool \<Rightarrow>
     string list \<times> (py_error + 'c ttfont)" where
  "fix_true_type_contours L font glyphNames remove_hinting ignoreErrors =
     (case glyf font of
        None \<Rightarrow> ([], Inl NotImplementedError)
      | Some glyfTable \<Rightarrow>
         (case hmtx font of
            None \<Rightarrow> ([], Inl KeyError)
          | Some hmtxTable \<Rightarrow>
             (let names = (case glyphNames of None \<Rightarrow> glyphOrder font | Some ns \<Rightarrow> ns)
              in case glyph_keys L glyfTable names of
                   Inl e \<Rightarrow> ([], Inl e)
                 | Inr ks \<Rightarrow>
                    (case process_glyphs L (map snd (sort ks)) glyfTable hmtxTable
                            remove_hinting ignoreErrors {} [] of
                       (trace, Inl e) \<Rightarrow> (trace, Inl e)
                     | (trace, Inr (glyfTable', hmtxTable', modified)) \<Rightarrow>
                         (trace, Inr (font\<lparr>glyf := Some glyfTable', hmtx := Some hmtxTable'\<rparr>))))))"

text \<open>
  The names the call is to process: \<open>glyphNames\<close>, or the whole glyph order when it is
  \<open>None\<close>.
\<close>

definition requested_names :: "'c ttfont \<Rightarrow> string list option \<Rightarrow> string list" where
  "requested_names font glyphNames =
     (case glyphNames of None \<Rightarrow> glyphOrder font | Some ns \<Rightarrow> ns)"

text \<open>
  The sort key of a name in a glyf table, for names the table has.
\<close>

definition glyph_key :: "'c fontlib \<Rightarrow> 'c glyf_table \<Rightarrow> string \<Rightarrow> int \<times> string" where
  "glyph_key L glyfTable n =
     (case glyfTable n of None \<Rightarrow> (0, n) | Some g \<Rightarrow> (component_depth L glyfTable g, n))"

text \<open>
  What the font library guarantees of \<open>maxComponentDepth\<close>: it is at least 1 for a
  composite glyph, and larger than that of every composite glyph among its components.
\<close>

definition depth_contract :: "'c fontlib \<Rightarrow> 'c glyf_table \<Rightarrow> bool" where
  "depth_contract L glyfTable =
     (\<forall>n g. glyfTable n = Some g \<and> isComposite g \<longrightarrow>
        1 \<le> maxComponentDepth L glyfTable g \<and>
        (\<forall>c \<in> set (components g). \<forall>b. glyfTable (glyphName c) = Some b \<and> isComposite b \<longrightarrow>
           maxComponentDepth L glyfTable b < maxComponentDepth L glyfTable g))"

text \<open>
  The order property on a trace: at the call for a composite glyph, each of its base glyphs
  (each one among \<open>wanted\<close>, in the second predicate) has been handed to
  \<open>removeTTGlyphOverlaps\<close> before.
\<close>

definition bases_processed_before :: "'c glyf_table \<Rightarrow> string list \<Rightarrow> bool" where
  "bases_processed_before glyfTable trace =
     list_all (\<lambda>j. case glyfTable (trace ! j) of
         None \<Rightarrow> True
       | Some g \<Rightarrow> \<not> isComposite g \<or>
           list_all (\<lambda>c. glyphName c \<in> set (take j trace)) (components g))
       [0 ..< length trace]"

definition wanted_bases_processed_before ::
  "string list \<Rightarrow> 'c glyf_table \<Rightarrow> string list \<Rightarrow> bool" where
  "wanted_bases_processed_before wanted glyfTable trace =
     list_all (\<lambda>j. case glyfTable (trace ! j) of
         None \<Rightarrow> True
       | Some g \<Rightarrow> \<not> isComposite g \<or>
           list_all (\<lambda>c. glyphName c \<notin> set wanted \<or> glyphName c \<in> set (take j trace))
             (components g))
       [0 ..< length trace]"

text \<open>
  A small font and library for concrete runs: glyphs \<open>a\<close> and \<open>b\<close> are simple (one
  contour each), \<open>c\<close> is composed of \<open>a\<close> and \<open>b\<close>. The library draws every glyph
  of the table as the segments of its outline (of its components' outlines, for a
  composite), simplifies a path to itself, finds no intersection, takes a path as one
  contour, bounds an outline by its points and gives depth 1.
\<close>

definition glyph_a :: "int glyph" where
  "glyph_a = \<lparr>numberOfContours = 1, components = [], program = [1, 2], xMin = 0, yMin = 0,
     xMax = 10, yMax = 10, outline = [(MOVE, [(0, 0)]), (LINE, [(10, 10)]), (CLOSE, [])]\<rparr>"

definition glyph_b :: "int glyph" where
  "glyph_b = \<lparr>numberOfContours = 1, components = [], program = [], xMin = 20, yMin = 0,
     xMax = 30, yMax = 10, outline = [(MOVE, [(20, 0)]), (LINE, [(30, 10)]), (CLOSE, [])]\<rparr>"

definition glyph_c :: "int glyph" where
  "glyph_c = \<lparr>numberOfContours = - 1,
     components = [\<lparr>glyphName = ''a'', transformation = (1, 0, 0, 1, 0, 0)\<rparr>,
                   \<lparr>glyphName = ''b'', transformation = (1, 0, 0, 1, 0, 0)\<rparr>],
     program = [], xMin = 0, yMin = 0, xMax = 30, yMax = 10, outline = []\<rparr>"

definition abc_table :: "int glyf_table" where
  "abc_table = [''a'' \<mapsto> glyph_a, ''b'' \<mapsto> glyph_b, ''c'' \<mapsto> glyph_c]"

definition abc_font :: "int ttfont" where
  "abc_font = \<lparr>glyf = Some abc_table,
     hmtx = Some [''a'' \<mapsto> (12, 0), ''b'' \<mapsto> (12, 1), ''c'' \<mapsto> (32, 0)],
     glyphOrder = [''c'', ''b'', ''a'']\<rparr>"

definition plain_draw :: "int glyf_table \<Rightarrow> string \<Rightarrow> int path option" where
  "plain_draw t n =
     (case t n of
        None \<Rightarrow> None
      | Some g \<Rightarrow>
          if isComposite g
          then Some (concat (map (\<lambda>c. case t (glyphName c) of None \<Rightarrow> [] | Some b \<Rightarrow> outline b)
                 (components g)))
          else Some (outline g))"

definition outline_bounds :: "int glyph \<Rightarrow> int \<times> int \<times> int \<times> int" where
  "outline_bounds g =
     (case concat (map snd (outline g)) of
        [] \<Rightarrow> (0, 0, 0, 0)
      | pt # pts \<Rightarrow>
          (fold min (map fst pts) (fst pt), fold min (map snd pts) (snd pt),
           fold max (map fst pts) (fst pt), fold max (map snd pts) (snd pt)))"

definition plain_lib :: "int fontlib" where
  "plain_lib = \<lparr>draw = plain_draw, simplify = Some, intersects = (\<lambda>p q. False),
     transform = (\<lambda>t p. p), contours = (\<lambda>p. [p]), otRound = id,
     pen_glyph = (\<lambda>p. \<lparr>numberOfContours = 1, components = [], program = [], xMin = 0,
        yMin = 0, xMax = 0, yMax = 0, outline = p\<rparr>),
     calcBounds = outline_bounds,
     maxComponentDepth = (\<lambda>t g. 1)\<rparr>"

text \<open>The paths that were handed to the path engine's \<open>simplify\<close>, in order.\<close>

fun simplify_calls :: "'c event list \<Rightarrow> 'c path list" where
  "simplify_calls [] = []"
| "simplify_calls (SimplifyCall p # es) = p # simplify_calls es"
| "simplify_calls (e # es) = simplify_calls es"

text \<open>
  A library whose \<open>simplify\<close> fails on a path with an odd coordinate and whose rounding
  goes to the even number below, and a path with odd coordinates.
\<close>

definition even_lib :: "int fontlib" where
  "even_lib = plain_lib\<lparr>
     simplify := (\<lambda>p. if list_all (\<lambda>(v, pts). list_all (\<lambda>(x, y). even x \<and> even y) pts) p
                      then Some p else None),
     otRound := (\<lambda>x. 2 * (x div 2))\<rparr>"

definition odd_path :: "int path" where
  "odd_path = [(MOVE, [(1, 3)]), (LINE, [(4, 5)]), (CLOSE, [])]"

text \<open>A glyf and an hmtx table with one hinted simple glyph, whose outline is that path.\<close>

definition odd_table :: "int glyf_table" where
  "odd_table = [''o'' \<mapsto> \<lparr>numberOfContours = 1, components = [], program = [176, 0],
     xMin = 1, yMin = 3, xMax = 4, yMax = 5, outline = odd_path\<rparr>]"

definition odd_hmtx :: hmtx_table where
  "odd_hmtx = [''o'' \<mapsto> (7, 1)]"

section \<open>The name table commands (ftcli_name.py)\<close>

text \<open>
  A record of the name table, and the table as the list of its records.
\<close>

record name_record =
  nameID :: int
  platformID :: int
  platEncID :: int
  langID :: int
  nameString :: string

type_synonym name_table = "name_record list"

text \<open>
  A font as the commands see it: its name table and the name of the file it was read
  from. The disk maps a file name to the font saved there.
\<close>

record cli_font =
  ntable :: name_table
  file_name :: string

type_synonym disk = "string \<rightharpoonup> cli_font"

text \<open>
  The name ids a command hands to \<open>del_names\<close>: the tuple of the command line, or the
  set that \<open>del_mac_names\<close> builds.
\<close>

datatype name_ids = IdTuple "int list" | IdSet "int set"

text \<open>
  What the commands call and this file does not define: the methods of the name table
  class (\<open>add_name\<close>, \<open>del_names\<close>, \<open>find_replace\<close>, \<open>append_string\<close>), which
  change the table in place or raise (\<open>Inl\<close>); \<open>compile\<close>, which gives the bytes of a
  table or raises; \<open>makeOutputFileName\<close>; and \<open>font.save\<close>, which gives the disk it
  leaves and the exception it raised, if any. The type \<open>'e\<close> is that of exceptions, the
  type \<open>'b\<close> that of compiled bytes.
\<close>

record ('e, 'b) name_env =
  tbl_add_name :: "cli_font \<Rightarrow> int \<Rightarrow> string \<Rightarrow> int option \<Rightarrow> string \<Rightarrow> name_table \<Rightarrow> 'e + name_table"
  tbl_del_names :: "name_ids \<Rightarrow> int option \<Rightarrow> string option \<Rightarrow> name_table \<Rightarrow> 'e + name_table"
  tbl_find_replace ::
    "string \<Rightarrow> string \<Rightarrow> int list \<Rightarrow> int list \<Rightarrow> int option \<Rightarrow> name_table \<Rightarrow> 'e + name_table"
  tbl_append_string ::
    "int list \<Rightarrow> int option \<Rightarrow> string option \<Rightarrow> string option \<Rightarrow> string option \<Rightarrow>
       name_table \<Rightarrow> 'e + name_table"
  compile :: "name_table \<Rightarrow> cli_font \<Rightarrow> 'e + 'b"
  makeOutputFileName :: "string \<Rightarrow> string \<Rightarrow> bool \<Rightarrow> string"
  save :: "cli_font \<Rightarrow> string \<Rightarrow> disk \<Rightarrow> disk \<times> 'e option"

datatype 'e message = FileSaved string | FileNotChanged string | GenericError 'e

text \<open>
  The body of the loop over the fonts, which the five commands share word for word but
  for the method they call (\<open>mutate\<close>) and, in \<open>append\<close>, the order of the two
  compilations (\<open>changed_first\<close>): copy the table, change it, compile both, save when the
  bytes differ. Any exception ends the body with an error message.
\<close>

definition process_font ::
  "('e, 'b) name_env \<Rightarrow> (name_table \<Rightarrow> 'e + name_table) \<Rightarrow> bool \<Rightarrow> string \<Rightarrow> bool \<Rightarrow>
     cli_font \<Rightarrow> disk \<Rightarrow> 'e message list \<times> disk" where
  "process_font E mutate changed_first output_dir overwrite font d =
     (let name_table_copy = ntable font
      in case mutate (ntable font) of
           Inl e \<Rightarrow> ([GenericError e], d)
         | Inr name_table' \<Rightarrow>
            (let font' = font\<lparr>ntable := name_table'\<rparr>;
                 file = file_name font';
                 first = (if changed_first then name_table' else name_table_copy);
                 second = (if changed_first then name_table_copy else name_table')
             in case compile E first font' of
                  Inl e \<Rightarrow> ([GenericError e], d)
                | Inr b1 \<Rightarrow>
                   (case compile E second font' of
                      Inl e \<Rightarrow> ([GenericError e], d)
                    | Inr b2 \<Rightarrow>
                       if b1 \<noteq> b2 then
                         (let output_file = makeOutputFileName E file output_dir overwrite
                          in case save E font' output_file d of
                               (d', None) \<Rightarrow> ([FileSaved output_file], d')
                             | (d', Some e) \<Rightarrow> ([GenericError e], d'))
                       else ([FileNotChanged file], d))))"

fun for_fonts ::
  "(cli_font \<Rightarrow> disk \<Rightarrow> 'e message list \<times> disk) \<Rightarrow> cli_font list \<Rightarrow> disk \<Rightarrow>
     'e message list \<times> disk" where
  "for_fonts body [] d = ([], d)"
| "for_fonts body (font # fonts) d =
     (case body font d of
        (ms, d') \<Rightarrow> (case for_fonts body fonts d' of (ms', d'') \<Rightarrow> (ms @ ms', d'')))"

text \<open>
  The commands. \<open>fonts\<close>, \<open>output_dir\<close> and \<open>check_pass\<close> are what
  \<open>get_fonts_in_path\<close>, \<open>get_output_dir\<close> and \<open>initial_check_pass\<close> return; the
  platform id is already the integer the command makes of its option.
\<close>

definition set_name ::
  "('e, 'b) name_env \<Rightarrow> cli_font list \<Rightarrow> string \<Rightarrow> bool \<Rightarrow> int \<Rightarrow> int option \<Rightarrow> string \<Rightarrow> string \<Rightarrow>
     bool \<Rightarrow> disk \<Rightarrow> 'e message list \<times> disk" where
  "set_name E fonts output_dir check_pass name_id platform_id text language_string overwrite d =
     (if \<not> check_pass then ([], d)
      else for_fonts (\<lambda>font. process_font E
             (tbl_add_name E font name_id text platform_id language_string)
             False output_dir overwrite font) fonts d)"

definition del_names ::
  "('e, 'b) name_env \<Rightarrow> cli_font list \<Rightarrow> string \<Rightarrow> bool \<Rightarrow> int list \<Rightarrow> int option \<Rightarrow> string option \<Rightarrow>
     bool \<Rightarrow> disk \<Rightarrow> 'e message list \<times> disk" where
  "del_names E fonts output_dir check_pass name_id_list platform_id language_string overwrite d =
     (if \<not> check_pass then ([], d)
      else for_fonts (\<lambda>font. process_font E
             (tbl_del_names E (IdTuple name_id_list) platform_id language_string)
             False output_dir overwrite font) fonts d)"

definition find_replace ::
  "('e, 'b) name_env \<Rightarrow> cli_font list \<Rightarrow> string \<Rightarrow> bool \<Rightarrow> string \<Rightarrow> string \<Rightarrow> int list \<Rightarrow> int list \<Rightarrow>
     int option \<Rightarrow> bool \<Rightarrow> disk \<Rightarrow> 'e message list \<times> disk" where
  "find_replace E fonts output_dir check_pass old_string new_string name_id_list excluded_name_ids
       platform_id overwrite d =
     (if \<not> check_pass then ([], d)
      else for_fonts (\<lambda>font. process_font E
             (tbl_find_replace E old_string new_string name_id_list excluded_name_ids platform_id)
             False output_dir overwrite font) fonts d)"

definition del_mac_names ::
  "('e, 'b) name_env \<Rightarrow> cli_font list \<Rightarrow> string \<Rightarrow> bool \<Rightarrow> bool \<Rightarrow> bool \<Rightarrow> disk \<Rightarrow>
     'e message list \<times> disk" where
  "del_mac_names E fonts output_dir check_pass del_all overwrite d =
     (if \<not> check_pass then ([], d)
      else for_fonts (\<lambda>font. process_font E
             (\<lambda>name_table.
                let ids = nameID ` {r \<in> set name_table. platformID r = 1};
                    ids' = (if \<not> del_all then ids - {1, 2, 4, 5, 6} else ids)
                in tbl_del_names E (IdSet ids') (Some 1) None name_table)
             False output_dir overwrite font) fonts d)"

definition append_command ::
  "('e, 'b) name_env \<Rightarrow> cli_font list \<Rightarrow> string \<Rightarrow> bool \<Rightarrow> int list \<Rightarrow> int option \<Rightarrow> string option \<Rightarrow>
     string option \<Rightarrow> string option \<Rightarrow> bool \<Rightarrow> 'e \<Rightarrow> disk \<Rightarrow> 'e message list \<times> disk" where
  "append_command E fonts output_dir check_pass name_id_list platform_id language_string prefix
       suffix overwrite no_affix d =
     (if prefix = None \<and> suffix = None then ([GenericError no_affix], d)
      else if \<not> check_pass then ([], d)
      else for_fonts (\<lambda>font. process_font E
             (tbl_append_string E name_id_list platform_id language_string prefix suffix)
             True output_dir overwrite font) fonts d)"

text \<open>
  An environment for concrete runs: \<open>add_name\<close> appends a Windows English record,
  \<open>del_names\<close> removes the records with the given name ids, the other methods leave
  the table alone, the bytes of a table are its strings, and saving stores the font under
  the output name. Two fonts, one with an empty name table and one with a family name.
\<close>

definition demo_env :: "(string, string list) name_env" where
  "demo_env = \<lparr>
     tbl_add_name = (\<lambda>font name_id s platform_id language t.
        Inr (t @ [\<lparr>nameID = name_id, platformID = 3, platEncID = 1, langID = 1033,
                    nameString = s\<rparr>])),
     tbl_del_names = (\<lambda>ids platform_id language t.
        Inr (filter (\<lambda>r. case ids of IdTuple xs \<Rightarrow> nameID r \<notin> set xs
                                      | IdSet S \<Rightarrow> nameID r \<notin> S) t)),
     tbl_find_replace = (\<lambda>old new ids excluded platform_id t. Inr t),
     tbl_append_string = (\<lambda>ids platform_id language prefix suffix t. Inr t),
     compile = (\<lambda>t font. Inr (map nameString t)),
     makeOutputFileName = (\<lambda>file dir overwrite. dir @ ''/'' @ file),
     save = (\<lambda>font file d. (d(file \<mapsto> font), None))\<rparr>"

definition demo_font :: cli_font where
  "demo_font = \<lparr>ntable = [], file_name = ''a.ttf''\<rparr>"

definition titled_font :: cli_font where
  "titled_font = \<lparr>ntable = [\<lparr>nameID = 1, platformID = 3, platEncID = 1, langID = 1033,
     nameString = ''T''\<rparr>], file_name = ''t.ttf''\<rparr>"

section \<open>The name table of TTFontCLI (TTFontCLI.py)\<close>

text \<open>
  What the name methods use of the font library and of Python's strings, as parameters:
  the three language tables of the library's name module (keys are lower-case language
  tags), whether a string can be written in the Macintosh encoding of a script and
  language, and the string methods \<open>lower\<close> and \<open>strip\<close>.
\<close>

record name_lib =
  WINDOWS_LANGUAGE_CODES :: "string \<rightharpoonup> int"
  MAC_LANGUAGE_CODES :: "string \<rightharpoonup> int"
  MAC_LANGUAGE_TO_SCRIPT :: "int \<rightharpoonup> int"
  mac_encodable :: "int \<Rightarrow> int \<Rightarrow> string \<Rightarrow> bool"
  str_lower :: "string \<Rightarrow> string"
  str_strip :: "string \<Rightarrow> string"

text \<open>
  The names that the CFF table keeps, and the state of a \<open>TTFontCLI\<close> object as far
  as its methods below read or write it: the records of the name table, the tags of the
  ltag table (\<open>None\<close>: no such table), the style bits, fields of the OS/2 table, the
  CFF names (\<open>None\<close>: no CFF table), and two strings that the library derives from
  the head table: \<open>str(round(fontRevision, 3))\<close> and the year in which the font was
  created.
\<close>

record cff_names =
  fontNames :: "string list"
  FullName :: string
  FamilyName :: string
  Weight :: string

record ttfont_cli =
  names :: name_table
  ltag :: "string list option"
  bits :: style_bits
  os2_version :: int
  usWeightClass :: int
  usWidthClass :: int
  achVendID :: string
  cff :: "cff_names option"
  fontRevision_str :: string
  year_created :: string

text \<open>
  The library's \<open>removeNames\<close>: an argument that is \<open>None\<close> matches every record;
  the records matching all given arguments are removed; with no argument given nothing is
  removed.
\<close>

definition removeNames ::
  "int option \<Rightarrow> int option \<Rightarrow> int option \<Rightarrow> int option \<Rightarrow> name_table \<Rightarrow> name_table" where
  "removeNames nid pid eid lid ns =
     (if nid = None \<and> pid = None \<and> eid = None \<and> lid = None then ns
      else filter (\<lambda>r. (nid \<noteq> None \<and> nid \<noteq> Some (nameID r)) \<or>
                        (pid \<noteq> None \<and> pid \<noteq> Some (platformID r)) \<or>
                        (eid \<noteq> None \<and> eid \<noteq> Some (platEncID r)) \<or>
                        (lid \<noteq> None \<and> lid \<noteq> Some (langID r))) ns)"

text \<open>The library's \<open>getName\<close>: the first record with the given ids.\<close>

definition getName :: "int \<Rightarrow> int \<Rightarrow> int \<Rightarrow> int option \<Rightarrow> name_table \<Rightarrow> name_record option" where
  "getName nid pid eid lid ns =
     find (\<lambda>r. nameID r = nid \<and> platformID r = pid \<and> platEncID r = eid \<and>
                (lid = None \<or> lid = Some (langID r))) ns"

text \<open>\<open>str(x)\<close> for what \<open>getName\<close> returns: the string of the record, or \<open>None\<close>.\<close>

definition str_of_name :: "name_record option \<Rightarrow> string" where
  "str_of_name x = (case x of None \<Rightarrow> ''None'' | Some r \<Rightarrow> nameString r)"

fun index_of :: "'a \<Rightarrow> 'a list \<Rightarrow> nat" where
  "index_of x [] = 0"
| "index_of x (y # ys) = (if x = y then 0 else Suc (index_of x ys))"

text \<open>The library's \<open>ltag.addTag\<close>: the index of the tag, which is appended if new.\<close>

definition addTag :: "string \<Rightarrow> string list \<Rightarrow> int \<times> string list" where
  "addTag tag tags =
     (if tag \<in> set tags then (int (index_of tag tags), tags)
      else (int (length tags), tags @ [tag]))"

text \<open>
  The library's \<open>addMultilingualName\<close> for the one-entry dictionary
  \<open>{language: string}\<close> and a given name id. A Windows record is made when the language
  has a Windows code; when it has none, a Macintosh name is made even if \<open>mac\<close> is
  false. A Macintosh record is made when the language has a Macintosh code and script and
  the string can be encoded; otherwise the name becomes a Unicode record (platform 0,
  encoding 4) whose language id is the index of the language in the ltag table.
\<close>

definition addMultilingualName ::
  "name_lib \<Rightarrow> string \<Rightarrow> string \<Rightarrow> bool \<Rightarrow> bool \<Rightarrow> int \<Rightarrow> ttfont_cli \<Rightarrow> ttfont_cli" where
  "addMultilingualName N language s windows mac nid f =
     (let wl = (if windows then WINDOWS_LANGUAGE_CODES N (str_lower N language) else None);
          f1 = (case wl of
                  None \<Rightarrow> f
                | Some l \<Rightarrow> f\<lparr>names := names f @ [\<lparr>nameID = nid, platformID = 3,
                     platEncID = 1, langID = l, nameString = s\<rparr>]\<rparr>);
          mac' = (mac \<or> (windows \<and> wl = None))
      in if \<not> mac' then f1
         else
           (let macLang = MAC_LANGUAGE_CODES N (str_lower N language);
                macScript = (case macLang of None \<Rightarrow> None
                             | Some l \<Rightarrow> MAC_LANGUAGE_TO_SCRIPT N l)
            in case (macLang, macScript) of
                 (Some l, Some sc) \<Rightarrow>
                   if mac_encodable N sc l s then
                     f1\<lparr>names := names f1 @ [\<lparr>nameID = nid, platformID = 1,
                          platEncID = sc, langID = l, nameString = s\<rparr>]\<rparr>
                   else
                     (case addTag language (case ltag f1 of None \<Rightarrow> [] | Some ts \<Rightarrow> ts) of
                        (i, ts') \<Rightarrow>
                          f1\<lparr>names := names f1 @ [\<lparr>nameID = nid, platformID = 0,
                               platEncID = 4, langID = i, nameString = s\<rparr>],
                             ltag := Some ts'\<rparr>)
               | _ \<Rightarrow>
                   (case addTag language (case ltag f1 of None \<Rightarrow> [] | Some ts \<Rightarrow> ts) of
                      (i, ts') \<Rightarrow>
                        f1\<lparr>names := names f1 @ [\<lparr>nameID = nid, platformID = 0,
                             platEncID = 4, langID = i, nameString = s\<rparr>],
                           ltag := Some ts'\<rparr>)))"

text \<open>
  \<open>delMultilingualName\<close> and \<open>setMultilingualName\<close>. Every caller passes a name id,
  so the name id is an integer here and the test \<open>nameID is not None\<close> holds.
\<close>

definition delMultilingualName ::
  "name_lib \<Rightarrow> int \<Rightarrow> string \<Rightarrow> bool \<Rightarrow> bool \<Rightarrow> ttfont_cli \<Rightarrow> ttfont_cli" where
  "delMultilingualName N nid language windows mac f =
     (let all = (language = ''ALL'');
          windows' = (if all then False else windows);
          mac' = (if all then False else mac);
          ns0 = (if all
                 then fold (\<lambda>r ns. if nameID r = nid
                              then removeNames (Some (nameID r)) (Some (platformID r))
                                     (Some (platEncID r)) (Some (langID r)) ns
                              else ns) (names f) (names f)
                 else names f);
          ns1 = (if windows'
                 then removeNames (Some nid) (Some 3) (Some 1)
                        (WINDOWS_LANGUAGE_CODES N (str_lower N language)) ns0
                 else ns0);
          ns2 = (if mac'
                 then (let macLang = MAC_LANGUAGE_CODES N (str_lower N language);
                           macScript = (case macLang of None \<Rightarrow> None
                                        | Some l \<Rightarrow> MAC_LANGUAGE_TO_SCRIPT N l)
                       in removeNames (Some nid) (Some 1) macScript macLang ns1)
                 else ns1)
      in f\<lparr>names := ns2\<rparr>)"

definition setMultilingualName ::
  "name_lib \<Rightarrow> int \<Rightarrow> string \<Rightarrow> string \<Rightarrow> bool \<Rightarrow> bool \<Rightarrow> ttfont_cli \<Rightarrow> ttfont_cli" where
  "setMultilingualName N nid language s windows mac f =
     (let f1 = (if windows then delMultilingualName N nid language True False f else f);
          f2 = (if mac then delMultilingualName N nid language False True f1 else f1)
      in addMultilingualName N language s windows mac nid f2)"

text \<open>
  Language tables with the entries of the library for English and Italian, ASCII
  lower-casing, and an encoding test that accepts the strings of ASCII characters.
\<close>

definition ascii_lower :: "string \<Rightarrow> string" where
  "ascii_lower s = map (\<lambda>c. if CHR ''A'' \<le> c \<and> c \<le> CHR ''Z''
                              then char_of (of_char c + (32 :: nat)) else c) s"

definition demo_lib :: name_lib where
  "demo_lib = \<lparr>
     WINDOWS_LANGUAGE_CODES = [''en'' \<mapsto> 1033, ''it'' \<mapsto> 1040],
     MAC_LANGUAGE_CODES = [''en'' \<mapsto> 0, ''it'' \<mapsto> 3],
     MAC_LANGUAGE_TO_SCRIPT = [0 \<mapsto> 0, 3 \<mapsto> 0],
     mac_encodable = (\<lambda>sc l s. list_all (\<lambda>c. c < CHR 0x80) s),
     str_lower = ascii_lower,
     str_strip = (\<lambda>s. rev (dropWhile (\<lambda>c. c = CHR '' '') (rev (dropWhile (\<lambda>c. c = CHR '' '') s))))\<rparr>"

definition empty_font :: ttfont_cli where
  "empty_font = \<lparr>names = [], ltag = None, bits = \<lparr>fsSelection = 64, macStyle = 0\<rparr>,
     os2_version = 4, usWeightClass = 400, usWidthClass = 5, achVendID = ''NONE'',
     cff = None, fontRevision_str = ''1.0'', year_created = ''2020''\<rparr>"

text \<open>Two records with the same four ids.\<close>

definition same_ids :: "name_record \<Rightarrow> name_record \<Rightarrow> bool" where
  "same_ids x r = (nameID r = nameID x \<and> platformID r = platformID x \<and>
     platEncID r = platEncID x \<and> langID r = langID x)"

text \<open>
  Which records a call of \<open>delMultilingualName\<close> keeps, when the language has the codes
  that the targeted platforms need.
\<close>

definition kept :: "int \<Rightarrow> string \<Rightarrow> bool \<Rightarrow> bool \<Rightarrow> int \<Rightarrow> int \<Rightarrow> int \<Rightarrow> name_record \<Rightarrow> bool" where
  "kept nid language windows mac wl ml sc r =
     (if language = ''ALL'' then nameID r \<noteq> nid
      else \<not> (windows \<and> nameID r = nid \<and> platformID r = 3 \<and> platEncID r = 1 \<and> langID r = wl) \<and>
           \<not> (mac \<and> nameID r = nid \<and> platformID r = 1 \<and> platEncID r = sc \<and> langID r = ml))"

text \<open>
  \<open>setMultilingualName\<close> when the language has the codes that the targeted platforms
  need and the string can be written in the Macintosh encoding: the records that stay,
  followed by the new records.
\<close>

definition stays :: "int \<Rightarrow> string \<Rightarrow> bool \<Rightarrow> bool \<Rightarrow> int \<Rightarrow> int \<Rightarrow> int \<Rightarrow> name_record \<Rightarrow> bool" where
  "stays nid language windows mac wl ml sc r =
     ((windows \<or> mac) \<longrightarrow> kept nid language windows mac wl ml sc r)"

text \<open>The records that \<open>setMultilingualName\<close> adds in that case.\<close>

definition added :: "int \<Rightarrow> string \<Rightarrow> bool \<Rightarrow> bool \<Rightarrow> int \<Rightarrow> int \<Rightarrow> int \<Rightarrow> name_table" where
  "added nid s windows mac wl ml sc =
     (if windows then [\<lparr>nameID = nid, platformID = 3, platEncID = 1, langID = wl,
                         nameString = s\<rparr>] else []) @
     (if mac then [\<lparr>nameID = nid, platformID = 1, platEncID = sc, langID = ml,
                     nameString = s\<rparr>] else [])"

text \<open>A font with English and Italian family names and an English subfamily name.\<close>

definition named_font :: ttfont_cli where
  "named_font = empty_font\<lparr>names :=
     [\<lparr>nameID = 1, platformID = 3, platEncID = 1, langID = 1033, nameString = ''Old''\<rparr>,
      \<lparr>nameID = 1, platformID = 1, platEncID = 0, langID = 0, nameString = ''Old''\<rparr>,
      \<lparr>nameID = 1, platformID = 3, platEncID = 1, langID = 1040, nameString = ''Vecchio''\<rparr>,
      \<lparr>nameID = 2, platformID = 3, platEncID = 1, langID = 1033, nameString = ''Regular''\<rparr>]\<rparr>"

text \<open>
  A symbol font: its English Windows family name has the encoding id 0, as the name
  records of a font with a symbol character map do.
\<close>

definition symbol_font :: ttfont_cli where
  "symbol_font = empty_font\<lparr>names :=
     [\<lparr>nameID = 1, platformID = 3, platEncID = 0, langID = 1033, nameString = ''Sym''\<rparr>]\<rparr>"

section \<open>Recalculating the names (TTFontCLI.recalcNames)\<close>

text \<open>
  Python's \<open>s.replace(old, new)\<close>: the occurrences of \<open>old\<close> are replaced from left
  to right without overlap; an empty \<open>old\<close> matches before every character and at the
  end. \<open>replace_scan\<close> walks through the string, skipping the characters of an
  occurrence it has just replaced.
\<close>

fun replace_scan :: "string \<Rightarrow> string \<Rightarrow> nat \<Rightarrow> string \<Rightarrow> string" where
  "replace_scan old new k [] = []"
| "replace_scan old new (Suc k) (c # cs) = replace_scan old new k cs"
| "replace_scan old new 0 (c # cs) =
     (if take (length old) (c # cs) = old
      then new @ replace_scan old new (length old - 1) cs
      else c # replace_scan old new 0 cs)"

definition py_replace :: "string \<Rightarrow> string \<Rightarrow> string \<Rightarrow> string" where
  "py_replace s old new =
     (if old = [] then new @ concat (map (\<lambda>c. c # new) s) else replace_scan old new 0 s)"

text \<open>\<open>s.ljust(n, c)\<close>.\<close>

definition ljust :: "nat \<Rightarrow> char \<Rightarrow> string \<Rightarrow> string" where
  "ljust n c s = s @ replicate (n - length s) c"

text \<open>
  A row of the style matrix, with the integers and strings that \<open>recalcNames\<close> makes of
  its cells, and the keyword arguments of \<open>recalcNames\<close>.
\<close>

record font_data =
  is_italic :: int
  is_oblique :: int
  uswidthclass :: int
  wdt :: string
  width :: string
  usweightclass :: int
  wgt :: string
  weight :: string
  slp :: string
  slope :: string
  family_name :: string

record recalc_options =
  namerecords_to_ignore :: "int list"
  shorten_weight :: "int list"
  shorten_width :: "int list"
  shorten_slope :: "int list"
  fixCFF :: bool
  linked_styles :: "int list"
  isSuperFamily :: bool
  alt_uid :: bool
  regular_italic :: bool
  keep_regular :: bool
  old_full_font_name :: bool
  oblique_not_italic :: bool

definition setOblique :: "ttfont_cli \<Rightarrow> ttfont_cli" where
  "setOblique f =
     (let f1 = (if os2_version f < 4 then f\<lparr>os2_version := 4\<rparr> else f)
      in f1\<lparr>bits := (bits f1)\<lparr>fsSelection := set_nth_bit (fsSelection (bits f1)) 9\<rparr>\<rparr>)"

definition setUsWeightClass :: "int \<Rightarrow> ttfont_cli \<Rightarrow> ttfont_cli" where
  "setUsWeightClass v f = (if usWeightClass f \<noteq> v then f\<lparr>usWeightClass := v\<rparr> else f)"

definition setUsWidthClass :: "int \<Rightarrow> ttfont_cli \<Rightarrow> ttfont_cli" where
  "setUsWidthClass v f = (if usWidthClass f \<noteq> v then f\<lparr>usWidthClass := v\<rparr> else f)"

text \<open>
  The value of the variable \<open>is_italic\<close> after the style bits are set: the cell of the
  matrix, cleared when the font is oblique and \<open>oblique_not_italic\<close> is set.
\<close>

definition italic_flag :: "font_data \<Rightarrow> recalc_options \<Rightarrow> bool" where
  "italic_flag fd opts =
     (if is_oblique fd \<noteq> 0 \<and> oblique_not_italic opts then False else is_italic fd \<noteq> 0)"

text \<open>The style bits and the weight and width classes (the first part of the method).\<close>

definition recalc_style :: "font_data \<Rightarrow> recalc_options \<Rightarrow> ttfont_cli \<Rightarrow> ttfont_cli" where
  "recalc_style fd opts f =
     (let f1 = f\<lparr>bits := setRegular (bits f)\<rparr>;
          f2 = (if is_italic fd \<noteq> 0 then f1\<lparr>bits := setItalic (bits f1)\<rparr> else f1);
          f3 = (if is_oblique fd \<noteq> 0 then
                  (let g1 = setOblique f2;
                       g2 = g1\<lparr>bits := setItalic (bits g1)\<rparr>
                   in if oblique_not_italic opts then g2\<lparr>bits := unsetItalic (bits g2)\<rparr>
                      else g2)
                else f2\<lparr>bits := unsetOblique (bits f2)\<rparr>);
          f4 = setUsWeightClass (usweightclass fd) f3
      in setUsWidthClass (uswidthclass fd) f4)"

text \<open>The Macintosh (typographic) family and subfamily names.\<close>

definition family_name_ot_of :: "name_lib \<Rightarrow> font_data \<Rightarrow> recalc_options \<Rightarrow> string" where
  "family_name_ot_of N fd opts =
     (if str_lower N (width fd) \<noteq> ''normal'' \<and> \<not> isSuperFamily opts
      then family_name fd @ '' '' @ width fd
      else family_name fd)"

definition subfamily_name_ot_of :: "name_lib \<Rightarrow> font_data \<Rightarrow> recalc_options \<Rightarrow> string" where
  "subfamily_name_ot_of N fd opts =
     (let s0 = (if str_lower N (width fd) \<noteq> ''normal'' \<and> isSuperFamily opts
                then width fd @ '' '' @ weight fd
                else weight fd)
      in if length (slope fd) > 0 then
           (let s1 = s0 @ '' '' @ slope fd
            in if \<not> keep_regular opts
               then str_strip N (py_replace (py_replace s1 ''Regular'' []) ''  '' '' '')
               else s1)
         else s0)"

text \<open>
  The linked styles make the font bold when there are two of them and the weight class is
  the larger one (\<open>linked_styles.sort()\<close>, then \<open>linked_styles[1]\<close>).
\<close>

definition bold_linked :: "font_data \<Rightarrow> recalc_options \<Rightarrow> bool" where
  "bold_linked fd opts =
     (length (linked_styles opts) = 2 \<and> usweightclass fd = sort (linked_styles opts) ! 1)"

text \<open>The Windows family and subfamily names.\<close>

definition family_name_win_of :: "name_lib \<Rightarrow> font_data \<Rightarrow> recalc_options \<Rightarrow> string" where
  "family_name_win_of N fd opts =
     (let w0 = str_strip N (py_replace
                 (family_name fd @ '' '' @
                  py_replace (py_replace (width fd) ''Normal'' []) ''Nor'' [] @ '' '' @ weight fd)
                 ''  '' '' '');
          w1 = (if length (slope fd) > 0 \<and> \<not> italic_flag fd opts
                then w0 @ '' '' @ slope fd else w0)
      in if length (linked_styles opts) = 2 \<and> usweightclass fd \<in> set (linked_styles opts)
         then str_strip N (py_replace (py_replace w1 (weight fd) []) ''  '' '' '')
         else w1)"

definition subfamily_name_win_of :: "font_data \<Rightarrow> recalc_options \<Rightarrow> string" where
  "subfamily_name_win_of fd opts =
     (let s0 = (if italic_flag fd opts \<or> (is_oblique fd \<noteq> 0 \<and> \<not> oblique_not_italic opts)
                then ''Italic'' else ''Regular'')
      in if bold_linked fd opts
         then (if italic_flag fd opts then ''Bold Italic'' else ''Bold'')
         else s0)"

text \<open>
  The replacement of the long words by the short ones in the name with id \<open>n\<close>, when
  the options ask for it.
\<close>

definition shorten :: "int \<Rightarrow> font_data \<Rightarrow> recalc_options \<Rightarrow> string \<Rightarrow> string" where
  "shorten n fd opts s =
     (let s1 = (if n \<in> set (shorten_weight opts) then py_replace s (weight fd) (wgt fd) else s);
          s2 = (if n \<in> set (shorten_width opts) then py_replace s1 (width fd) (wdt fd) else s1)
      in if n \<in> set (shorten_slope opts) then py_replace s2 (slope fd) (slp fd) else s2)"

definition postscript_name_of ::
  "name_lib \<Rightarrow> font_data \<Rightarrow> recalc_options \<Rightarrow> ttfont_cli \<Rightarrow> string" where
  "postscript_name_of N fd opts f =
     (if 6 \<notin> set (namerecords_to_ignore opts) then
        (let p0 = py_replace (py_replace (family_name_ot_of N fd opts) ''.'' []) ''-'' [] @ ''-'' @
                  py_replace (py_replace (subfamily_name_ot_of N fd opts) ''.'' []) ''-'' [];
             p1 = fold (\<lambda>illegal_char p. py_replace p illegal_char [])
                    [''['', '']'', ''{'', ''}'', ''<'', ''>'', ''/'', ''%''] p0;
             p2 = (if regular_italic opts then py_replace p1 ''-Italic'' ''-RegularItalic''
                   else p1);
             p3 = shorten 6 fd opts p2
         in py_replace (py_replace p3 '' '' []) ''.'' [])
      else str_of_name (getName 6 3 1 (Some 1033) (names f)))"

definition font_revision_of :: "ttfont_cli \<Rightarrow> string" where
  "font_revision_of f = ljust 5 (CHR ''0'') (fontRevision_str f)"

definition unique_id_of :: "name_lib \<Rightarrow> font_data \<Rightarrow> recalc_options \<Rightarrow> ttfont_cli \<Rightarrow> string" where
  "unique_id_of N fd opts f =
     (let ach_vend_id = py_replace (py_replace (achVendID f) '' '' [])
                          [CHR 0x5C, CHR ''x'', CHR ''0'', CHR ''0''] []
      in if alt_uid opts then
           str_of_name (getName 8 3 1 (Some 1033) (names f)) @ '': '' @
           family_name_ot_of N fd opts @ ''-'' @ subfamily_name_ot_of N fd opts @ '': '' @
           year_created f
         else font_revision_of f @ '';'' @ ljust 4 (CHR '' '') ach_vend_id @ '';'' @
              postscript_name_of N fd opts f)"

definition full_font_name_of :: "name_lib \<Rightarrow> font_data \<Rightarrow> recalc_options \<Rightarrow> string" where
  "full_font_name_of N fd opts =
     family_name_ot_of N fd opts @ '' '' @ subfamily_name_ot_of N fd opts"

text \<open>
  The writing of the name ids 16 and 17: the name is written to the Windows platform and
  deleted from the Macintosh platform when it differs from the string of the current
  Windows record with id \<open>other\<close> (1 or 2), and deleted on both platforms otherwise.
\<close>

definition write_typographic ::
  "name_lib \<Rightarrow> int \<Rightarrow> int \<Rightarrow> string \<Rightarrow> ttfont_cli \<Rightarrow> ttfont_cli" where
  "write_typographic N nid other s f =
     (if \<not> (s = str_of_name (getName other 3 1 (Some 1033) (names f))) then
        delMultilingualName N nid ''en'' False True
          (setMultilingualName N nid ''en'' s True False f)
      else delMultilingualName N nid ''en'' True True f)"

text \<open>
  \<open>recalcNames\<close>. The names are derived from the font as it is on entry (the name
  records are not written before the last part) and then written one after the other.
  The warnings that the method prints for long names are left out.
\<close>

definition recalcNames ::
  "name_lib \<Rightarrow> font_data \<Rightarrow> recalc_options \<Rightarrow> ttfont_cli \<Rightarrow> ttfont_cli" where
  "recalcNames N fd opts f =
     (let ignore = set (namerecords_to_ignore opts);
          f0 = recalc_style fd opts f;
          f0' = (if bold_linked fd opts then f0\<lparr>bits := setBold (bits f0)\<rparr> else f0);
          postscript_name = postscript_name_of N fd opts f;
          full_font_name = full_font_name_of N fd opts;
          f1 = (if 1 \<notin> ignore
                then setMultilingualName N 1 ''en''
                       (shorten 1 fd opts (family_name_win_of N fd opts)) True True f0'
                else f0');
          f2 = (if 2 \<notin> ignore
                then setMultilingualName N 2 ''en'' (subfamily_name_win_of fd opts) True True f1
                else f1);
          f3 = (if 3 \<notin> ignore
                then delMultilingualName N 3 ''en'' False True
                       (setMultilingualName N 3 ''en''
                          (shorten 3 fd opts (unique_id_of N fd opts f)) True False f2)
                else f2);
          f4 = (if 4 \<notin> ignore
                then setMultilingualName N 4 ''en''
                       (if old_full_font_name opts then postscript_name
                        else shorten 4 fd opts full_font_name) True True f3
                else f3);
          f5 = (if 5 \<notin> ignore
                then setMultilingualName N 5 ''en'' (''Version '' @ font_revision_of f) True True f4
                else f4);
          f6 = (if 6 \<notin> ignore
                then setMultilingualName N 6 ''en'' postscript_name True True f5
                else f5);
          f16 = (if 16 \<notin> ignore
                 then write_typographic N 16 1 (shorten 16 fd opts (family_name_ot_of N fd opts)) f6
                 else f6);
          f17 = (if 17 \<notin> ignore
                 then write_typographic N 17 2
                        (shorten 17 fd opts (subfamily_name_ot_of N fd opts)) f16
                 else f16);
          f18 = (if 18 \<notin> ignore
                 then (let name_id_18 = shorten 18 fd opts full_font_name
                       in if \<not> (name_id_18 = str_of_name (getName 4 1 0 (Some 0) (names f17)))
                          then setMultilingualName N 18 ''en'' name_id_18 False True f17
                          else delMultilingualName N 18 ''en'' True True f17)
                 else f17)
      in case cff f18 of
           None \<Rightarrow> f18
         | Some c \<Rightarrow>
             if fixCFF opts
             then f18\<lparr>cff := Some (c\<lparr>fontNames := [postscript_name],
                     FullName := full_font_name,
                     FamilyName := family_name_ot_of N fd opts,
                     Weight := weight fd\<rparr>)\<rparr>
             else f18)"

text \<open>A row of a style matrix and options for concrete runs.\<close>

definition bold_row :: font_data where
  "bold_row = \<lparr>is_italic = 0, is_oblique = 0, uswidthclass = 5, wdt = ''Nor'',
     width = ''Normal'', usweightclass = 700, wgt = ''Bd'', weight = ''Bold'', slp = [],
     slope = [], family_name = ''Demo''\<rparr>"

definition plain_options :: recalc_options where
  "plain_options = \<lparr>namerecords_to_ignore = [], shorten_weight = [], shorten_width = [],
     shorten_slope = [], fixCFF = False, linked_styles = [400, 700], isSuperFamily = False,
     alt_uid = False, regular_italic = False, keep_regular = False,
     old_full_font_name = False, oblique_not_italic = False\<rparr>"

text \<open>A font with a French Macintosh record of the typographic family name.\<close>

definition french_font :: ttfont_cli where
  "french_font = empty_font\<lparr>names :=
     [\<lparr>nameID = 16, platformID = 1, platEncID = 0, langID = 1, nameString = ''Famille''\<rparr>]\<rparr>"

section \<open>Properties of the style bits\<close>

lemma is_nth_bit_set_bit: "is_nth_bit_set x n = bit x n"
  by (simp add: is_nth_bit_set_def bit_iff_and_push_bit_not_eq_0)

lemma bit_set_nth_bit: "bit (set_nth_bit x n) m = (bit x m \<or> m = n)"
  by (auto simp add: set_nth_bit_def bit_or_iff bit_exp_iff)

lemma bit_unset_nth_bit: "bit (unset_nth_bit x n) m = (bit x m \<and> m \<noteq> n)"
  by (auto simp add: unset_nth_bit_def bit_and_iff bit_not_iff bit_exp_iff)

lemmas style_defs =
  style_consistent_def isBold_def isItalic_def isRegular_def
  setBold_def setItalic_def unsetBold_def unsetItalic_def setRegular_def
  setBoldBits_def setItalicBits_def setRegularBit_def
  clearBoldBits_def clearItalicBits_def clearRegularBit_def

lemmas style_bit_simps = is_nth_bit_set_bit bit_set_nth_bit bit_unset_nth_bit

text \<open>
  C10. In every state where the regular bit agrees with "neither bold nor italic",
  each of setBold, setItalic, setRegular, unsetBold and unsetItalic leads to a state where
  it still does.
\<close>

theorem style_ops_preserve_consistent:
  assumes "style_consistent s"
  shows "style_consistent (setBold s) \<and> style_consistent (setItalic s) \<and>
         style_consistent (setRegular s) \<and> style_consistent (unsetBold s) \<and>
         style_consistent (unsetItalic s)"
  using assms by (auto simp add: style_defs style_bit_simps Let_def)

theorem style_ops_preserve_consistent_witness:
  "style_consistent \<lparr>fsSelection = 32, macStyle = 1\<rparr> \<and>
   style_consistent (setBold \<lparr>fsSelection = 32, macStyle = 1\<rparr>) \<and>
   style_consistent (setItalic \<lparr>fsSelection = 32, macStyle = 1\<rparr>) \<and>
   style_consistent (setRegular \<lparr>fsSelection = 32, macStyle = 1\<rparr>) \<and>
   style_consistent (unsetBold \<lparr>fsSelection = 32, macStyle = 1\<rparr>) \<and>
   style_consistent (unsetItalic \<lparr>fsSelection = 32, macStyle = 1\<rparr>)"
proof -
  have h: "style_consistent \<lparr>fsSelection = 32, macStyle = 1\<rparr>"
    by (simp add: style_defs is_nth_bit_set_def)
  from style_ops_preserve_consistent [OF h] h show ?thesis by simp
qed

section \<open>Properties of modifyLinegapPercent\<close>

text \<open>
  Whenever \<open>modifyLinegapPercent\<close> completes, the line gap of hhea is 0, the Windows
  ascent is the new hhea ascent and the Windows descent the negated new hhea descent. In
  the third branch the new span is the total height, the units per em plus the line
  spacing units.
\<close>

lemma modifyLinegapPercent_win:
  assumes "modifyLinegapPercent m percent = Some m'"
  shows "lineGap m' = 0 \<and> usWinAscent m' = ascent m' \<and> usWinDescent m' = - descent m' \<and>
         unitsPerEm m' = unitsPerEm m"
proof -
  from assms obtain lsu u where
    l: "line_spacing_units_of percent (unitsPerEm m) = Some lsu"
    and u: "int_half (lsu + unitsPerEm m - (ascent m + - descent m)) = Some u"
    unfolding modifyLinegapPercent_def Let_def by (simp split: option.splits)
  show ?thesis
  proof (cases "sTypoLineGap m = 0 \<and> sTypoAscender m + - sTypoDescender m > unitsPerEm m")
    case True
    with assms l u show ?thesis
      unfolding modifyLinegapPercent_def Let_def by auto
  next
    case f1: False
    show ?thesis
    proof (cases "sTypoLineGap m = 0 \<and> sTypoAscender m + - sTypoDescender m = unitsPerEm m")
      case True
      with assms l u f1 show ?thesis
        unfolding modifyLinegapPercent_def Let_def by auto
    next
      case False
      with assms l u f1 show ?thesis
        unfolding modifyLinegapPercent_def Let_def by (auto split: option.splits)
    qed
  qed
qed

lemma modifyLinegapPercent_else_span:
  assumes "modifyLinegapPercent m percent = Some m'"
    and "\<not> (sTypoLineGap m = 0 \<and> sTypoAscender m + - sTypoDescender m \<ge> unitsPerEm m)"
  shows "\<exists>lsu. line_spacing_units_of percent (unitsPerEm m) = Some lsu \<and>
           ascent m' - descent m' = unitsPerEm m + lsu"
proof -
  from assms(1) obtain lsu u where
    l: "line_spacing_units_of percent (unitsPerEm m) = Some lsu"
    and u: "int_half (lsu + unitsPerEm m - (ascent m + - descent m)) = Some u"
    unfolding modifyLinegapPercent_def Let_def by (simp split: option.splits)
  from assms(2) have
    f1: "\<not> (sTypoLineGap m = 0 \<and> sTypoAscender m + - sTypoDescender m > unitsPerEm m)"
    and f2: "\<not> (sTypoLineGap m = 0 \<and> sTypoAscender m + - sTypoDescender m = unitsPerEm m)"
    by auto
  from assms(1) l u f1 f2 have "ascent m' - descent m' = unitsPerEm m + lsu"
    unfolding modifyLinegapPercent_def Let_def by (auto split: option.splits)
  with l show ?thesis by simp
qed

lemma adobe_run:
  "modifyLinegapPercent adobe_font 100 =
     Some (adobe_font\<lparr>lineGap := 0, usWinAscent := 1349, usWinDescent := 650,
        ascent := 1349, descent := - 650\<rparr>)"
  by code_simp

lemma gap_run:
  "modifyLinegapPercent gap_font 201 =
     Some (gap_font\<lparr>lineGap := 0, sTypoLineGap := 2009, usWinAscent := 1804,
        usWinDescent := 1205, ascent := 1804, descent := - 1205\<rparr>)"
  by code_simp

lemma promised_span_runs:
  "promised_span adobe_font 100 = 2000"
  "promised_span gap_font 201 = 3010"
  by (simp_all add: promised_span_def py_int_def adobe_font_def gap_font_def)

text \<open>
  C7. The span that \<open>modifyLinegapPercent\<close> leaves is not always the promised one. On
  a font with the Adobe metrics layout, an hhea span of 1101 and 1000 units per em, a
  request of 100 percent completes with the span 1999 where 2000 is promised: the height
  to add, 899, is odd, and \<open>int(0.5 * delta_height)\<close> is added to the ascent and
  subtracted from the descent. On a font with a typographic line gap and 1000 units per
  em, a request of 201 percent completes with the span 3009 where 3010 is promised: the
  float \<open>2.01 * 1000\<close> is below 2010 and \<open>int\<close> truncates it to 2009. In both runs
  the line gap of hhea is 0 and the Windows ascent and descent are the new hhea ascent
  and the negated new hhea descent.
\<close>

theorem modifyLinegapPercent_span_off_by_one:
  "modifyLinegapPercent adobe_font 100 =
     Some (adobe_font\<lparr>lineGap := 0, usWinAscent := 1349, usWinDescent := 650,
        ascent := 1349, descent := - 650\<rparr>) \<and>
   map_option (\<lambda>m'. ascent m' - descent m') (modifyLinegapPercent adobe_font 100) = Some 1999 \<and>
   promised_span adobe_font 100 = 2000 \<and>
   modifyLinegapPercent gap_font 201 =
     Some (gap_font\<lparr>lineGap := 0, sTypoLineGap := 2009, usWinAscent := 1804,
        usWinDescent := 1205, ascent := 1804, descent := - 1205\<rparr>) \<and>
   map_option (\<lambda>m'. ascent m' - descent m') (modifyLinegapPercent gap_font 201) = Some 3009 \<and>
   promised_span gap_font 201 = 3010"
  unfolding adobe_run gap_run promised_span_runs by simp

section \<open>Properties of the outline repair\<close>

lemma round_path_nth:
  "length (round_path p f) = length p \<and>
   (\<forall>i < length p. fst (round_path p f ! i) = fst (p ! i) \<and>
      snd (round_path p f ! i) = map (\<lambda>pt. (f (fst pt), f (snd pt))) (snd (p ! i)))"
  by (simp add: round_path_def split_beta)

lemma even_lib_odd_path:
  "simplify even_lib odd_path = None"
  "round_path odd_path (otRound even_lib) = [(MOVE, [(0, 2)]), (LINE, [(4, 4)]), (CLOSE, [])]"
  "simplify even_lib [(MOVE, [(0, 2)]), (LINE, [(4, 4)]), (CLOSE, [])] =
     Some [(MOVE, [(0, 2)]), (LINE, [(4, 4)]), (CLOSE, [])]"
  by (simp_all add: even_lib_def plain_lib_def odd_path_def round_path_def)

text \<open>
  C3. \<open>_simplify\<close> (here \<open>simplify_path\<close>) first hands the path as it is to the path
  engine and returns that result when the engine succeeds, with no further call. When the
  engine fails, it calls the engine exactly once more, on the path of \<open>_round_path\<close>
  (here \<open>round_path\<close>): the same segments and verbs, every coordinate replaced by its
  \<open>otRound\<close>; it returns that result when the engine succeeds. It raises exactly when
  both calls fail, and every path it returns is the engine's result for one of its calls.
\<close>

theorem simplify_path_retry:
  "(\<forall>q. simplify L p = Some q \<longrightarrow>
      snd (simplify_path L p n) = Inr q \<and> simplify_calls (fst (simplify_path L p n)) = [p]) \<and>
   (simplify L p = None \<longrightarrow>
      simplify_calls (fst (simplify_path L p n)) = [p, round_path p (otRound L)] \<and>
      (\<forall>q. simplify L (round_path p (otRound L)) = Some q \<longrightarrow>
         snd (simplify_path L p n) = Inr q)) \<and>
   ((\<exists>e. snd (simplify_path L p n) = Inl e) \<longleftrightarrow>
      simplify L p = None \<and> simplify L (round_path p (otRound L)) = None) \<and>
   (\<forall>q. snd (simplify_path L p n) = Inr q \<longrightarrow>
      (\<exists>p' \<in> set (simplify_calls (fst (simplify_path L p n))). simplify L p' = Some q)) \<and>
   length (round_path p (otRound L)) = length p \<and>
   (\<forall>i < length p. fst (round_path p (otRound L) ! i) = fst (p ! i) \<and>
      snd (round_path p (otRound L) ! i) =
        map (\<lambda>pt. (otRound L (fst pt), otRound L (snd pt))) (snd (p ! i)))"
  using round_path_nth [of p "otRound L"]
  by (auto simp add: simplify_path_def Let_def split: option.splits)

theorem simplify_path_retry_witness:
  "simplify even_lib odd_path = None \<and>
   simplify even_lib (round_path odd_path (otRound even_lib)) =
     Some [(MOVE, [(0, 2)]), (LINE, [(4, 4)]), (CLOSE, [])] \<and>
   snd (simplify_path even_lib odd_path ''a'') =
     Inr [(MOVE, [(0, 2)]), (LINE, [(4, 4)]), (CLOSE, [])] \<and>
   simplify_calls (fst (simplify_path even_lib odd_path ''a'')) =
     [odd_path, [(MOVE, [(0, 2)]), (LINE, [(4, 4)]), (CLOSE, [])]]"
  using simplify_path_retry [of even_lib odd_path "''a''"] even_lib_odd_path
  by simp

lemma removeTTGlyphOverlaps_False:
  assumes "removeTTGlyphOverlaps L n gs glyfTable hmtxTable rh = Inr (False, glyfTable', hmtxTable')"
  shows "hmtxTable' = hmtxTable \<and>
    (\<exists>g. glyfTable n = Some g \<and>
       glyfTable' = (if rh then glyfTable(n \<mapsto> removeHinting g) else glyfTable))"
  using assms unfolding removeTTGlyphOverlaps_def Let_def
  by (auto split: option.splits sum.splits bool.splits if_splits prod.splits)

lemma removeTTGlyphOverlaps_True:
  assumes "removeTTGlyphOverlaps L n gs glyfTable hmtxTable rh = Inr (True, glyfTable', hmtxTable')"
  shows "\<exists>g p p2 g' width lsb. glyfTable n = Some g \<and>
      (numberOfContours g > 0 \<or> isComposite g \<and> componentsOverlap L g gs = Inr True) \<and>
      skPathFromGlyph L n gs = Inr p \<and> snd (simplify_path L p n) = Inr p2 \<and>
      set (contours L p) \<noteq> set (contours L p2) \<and>
      ttfGlyphFromSkPath L p2 = Inr g' \<and> program g' = [] \<and>
      hmtxTable n = Some (width, lsb) \<and>
      glyfTable' = glyfTable(n \<mapsto> g') \<and>
      hmtxTable' = hmtxTable(n \<mapsto> (width, xMin g'))"
  using assms unfolding removeTTGlyphOverlaps_def Let_def
  by (auto split: option.splits sum.splits bool.splits if_splits prod.splits)

lemma ttfGlyphFromSkPath_Inr:
  assumes "ttfGlyphFromSkPath L p = Inr g"
  shows "g = recalcBounds L (pen_glyph L p) \<and> \<not> isComposite g \<and>
    (xMin g, yMin g, xMax g, yMax g) = calcBounds L (pen_glyph L p) \<and>
    outline g = outline (pen_glyph L p) \<and> program g = program (pen_glyph L p)"
  using assms unfolding ttfGlyphFromSkPath_def Let_def recalcBounds_def isComposite_def
  by (auto split: if_splits prod.splits)

lemma plain_a_run:
  "removeTTGlyphOverlaps plain_lib ''a'' abc_table abc_table (the (hmtx abc_font)) True =
     Inr (False, abc_table(''a'' \<mapsto> removeHinting glyph_a), the (hmtx abc_font))"
  by (simp add: removeTTGlyphOverlaps_def plain_lib_def abc_table_def glyph_a_def
      skPathFromGlyph_def plain_draw_def isComposite_def simplify_path_def Let_def)

lemma odd_run:
  "removeTTGlyphOverlaps even_lib ''o'' odd_table odd_table odd_hmtx True =
     Inr (True,
       odd_table(''o'' \<mapsto> \<lparr>numberOfContours = 1, components = [], program = [],
         xMin = 0, yMin = 2, xMax = 4, yMax = 4,
         outline = [(MOVE, [(0, 2)]), (LINE, [(4, 4)]), (CLOSE, [])]\<rparr>),
       odd_hmtx(''o'' \<mapsto> (7, 0)))"
  by (simp add: removeTTGlyphOverlaps_def even_lib_def plain_lib_def odd_table_def odd_hmtx_def
      odd_path_def skPathFromGlyph_def plain_draw_def isComposite_def simplify_path_def Let_def
      round_path_def ttfGlyphFromSkPath_def recalcBounds_def outline_bounds_def)

text \<open>
  C9. When \<open>removeTTGlyphOverlaps\<close> returns, its flag tells whether it replaced the
  glyph: with \<open>True\<close> the glyf entry is the glyph made from the simplified path, and the
  contours of that path, as a set, differ from those of the original path (so equal
  contour sets mean no replacement); with \<open>False\<close> the hmtx table is as it was and the
  glyf table is as it was, except that the glyph has lost its hinting program when
  \<open>removeHinting\<close> is set.
\<close>

theorem removeTTGlyphOverlaps_frame:
  assumes "removeTTGlyphOverlaps L n gs glyfTable hmtxTable rh =
             Inr (changed, glyfTable', hmtxTable')"
  shows "\<exists>g. glyfTable n = Some g \<and>
    (changed \<longrightarrow>
       (\<exists>p p2 g'. skPathFromGlyph L n gs = Inr p \<and> snd (simplify_path L p n) = Inr p2 \<and>
          set (contours L p) \<noteq> set (contours L p2) \<and>
          ttfGlyphFromSkPath L p2 = Inr g' \<and> glyfTable' = glyfTable(n \<mapsto> g'))) \<and>
    (\<not> changed \<longrightarrow>
       hmtxTable' = hmtxTable \<and>
       glyfTable' = (if rh then glyfTable(n \<mapsto> removeHinting g) else glyfTable))"
proof (cases changed)
  case True
  with removeTTGlyphOverlaps_True [of L n gs glyfTable hmtxTable rh glyfTable' hmtxTable'] assms
  show ?thesis by auto
next
  case False
  with removeTTGlyphOverlaps_False [of L n gs glyfTable hmtxTable rh glyfTable' hmtxTable'] assms
  show ?thesis by auto
qed

theorem removeTTGlyphOverlaps_frame_witness:
  "removeTTGlyphOverlaps plain_lib ''a'' abc_table abc_table (the (hmtx abc_font)) True =
     Inr (False, abc_table(''a'' \<mapsto> removeHinting glyph_a), the (hmtx abc_font)) \<and>
   abc_table ''a'' = Some glyph_a \<and>
   program (removeHinting glyph_a) = [] \<and> program glyph_a = [1, 2]"
  using removeTTGlyphOverlaps_frame [OF plain_a_run] plain_a_run
  by (simp add: abc_table_def removeHinting_def glyph_a_def)

text \<open>
  C1. When \<open>removeTTGlyphOverlaps\<close> has replaced a glyph (it returns \<open>True\<close>), the
  new glyf entry is not composite, it carries the outline that the glyph pen made from the
  simplified path, its bounding box is the one computed from that outline, its hinting
  program is empty, and the hmtx entry keeps the advance width and has the new
  \<open>xMin\<close> as left side bearing.
\<close>

theorem removeTTGlyphOverlaps_replacement:
  assumes "removeTTGlyphOverlaps L n gs glyfTable hmtxTable rh =
             Inr (True, glyfTable', hmtxTable')"
  shows "\<exists>g' p p2 width lsb.
    glyfTable' n = Some g' \<and> \<not> isComposite g' \<and>
    skPathFromGlyph L n gs = Inr p \<and> snd (simplify_path L p n) = Inr p2 \<and>
    outline g' = outline (pen_glyph L p2) \<and>
    (xMin g', yMin g', xMax g', yMax g') = calcBounds L (pen_glyph L p2) \<and>
    program g' = [] \<and>
    hmtxTable n = Some (width, lsb) \<and> hmtxTable' n = Some (width, xMin g')"
proof -
  from removeTTGlyphOverlaps_True [OF assms]
  obtain g p p2 g' width lsb where h: "glyfTable n = Some g"
      "skPathFromGlyph L n gs = Inr p" "snd (simplify_path L p n) = Inr p2"
      "ttfGlyphFromSkPath L p2 = Inr g'" "program g' = []"
      "hmtxTable n = Some (width, lsb)"
      "glyfTable' = glyfTable(n \<mapsto> g')"
      "hmtxTable' = hmtxTable(n \<mapsto> (width, xMin g'))"
    by blast
  from ttfGlyphFromSkPath_Inr [OF h(4)] h show ?thesis by auto
qed

theorem removeTTGlyphOverlaps_replacement_witness:
  "removeTTGlyphOverlaps even_lib ''o'' odd_table odd_table odd_hmtx True =
     Inr (True,
       odd_table(''o'' \<mapsto> \<lparr>numberOfContours = 1, components = [], program = [],
         xMin = 0, yMin = 2, xMax = 4, yMax = 4,
         outline = [(MOVE, [(0, 2)]), (LINE, [(4, 4)]), (CLOSE, [])]\<rparr>),
       odd_hmtx(''o'' \<mapsto> (7, 0))) \<and>
   odd_hmtx ''o'' = Some (7, 1)"
  using removeTTGlyphOverlaps_replacement [OF odd_run] odd_run
  by (simp add: odd_hmtx_def)

lemma glyph_keys_Inr:
  "glyph_keys L t ns = Inr ks \<Longrightarrow>
     ks = map (glyph_key L t) ns \<and> (\<forall>n \<in> set ns. t n \<noteq> None)"
  by (induction ns arbitrary: ks) (auto split: option.splits sum.splits simp: glyph_key_def)

lemma snd_glyph_key: "snd (glyph_key L t n) = n"
  by (simp add: glyph_key_def split: option.splits)

lemma process_glyphs_trace:
  "\<exists>k \<le> length ns. fst (process_glyphs L ns g h rh ie m tr) = tr @ take k ns \<and>
     ((\<exists>x. snd (process_glyphs L ns g h rh ie m tr) = Inr x) \<longrightarrow> k = length ns)"
proof (induction ns arbitrary: g h m tr)
  case Nil
  show ?case by simp
next
  case (Cons n ns)
  show ?case
  proof (cases "removeTTGlyphOverlaps L n g g h rh")
    case (Inr res)
    obtain changed g' h' where res: "res = (changed, g', h')" by (cases res) auto
    from Cons.IH [of g' h' "if changed then insert n m else m" "tr @ [n]"]
    obtain k where k: "k \<le> length ns"
      "fst (process_glyphs L ns g' h' rh ie (if changed then insert n m else m) (tr @ [n])) =
         (tr @ [n]) @ take k ns"
      "(\<exists>x. snd (process_glyphs L ns g' h' rh ie (if changed then insert n m else m) (tr @ [n])) = Inr x)
         \<longrightarrow> k = length ns"
      by blast
    show ?thesis
      by (rule exI [of _ "Suc k"]) (use k Inr res in simp)
  next
    case (Inl e)
    show ?thesis
    proof (cases "e = RemoveOverlapsError \<and> ie")
      case True
      from Cons.IH [of g h m "tr @ [n]"]
      obtain k where k: "k \<le> length ns"
        "fst (process_glyphs L ns g h rh ie m (tr @ [n])) = (tr @ [n]) @ take k ns"
        "(\<exists>x. snd (process_glyphs L ns g h rh ie m (tr @ [n])) = Inr x) \<longrightarrow> k = length ns"
        by blast
      show ?thesis
        by (rule exI [of _ "Suc k"]) (use k Inl True in simp)
    next
      case False
      show ?thesis
        by (rule exI [of _ "Suc 0"]) (use Inl False in auto)
    qed
  qed
qed

text \<open>The trace is an initial part of the sorted names, and all of them on success.\<close>

lemma fix_true_type_contours_trace:
  assumes "glyf font = Some t"
    and "fix_true_type_contours L font glyphNames rh ie = (trace, r)"
    and "trace \<noteq> [] \<or> (\<exists>f. r = Inr f)"
  shows "\<exists>k. trace = take k (map snd (sort (map (glyph_key L t) (requested_names font glyphNames)))) \<and>
    ((\<exists>f. r = Inr f) \<longrightarrow>
       trace = map snd (sort (map (glyph_key L t) (requested_names font glyphNames)))) \<and>
    (\<forall>n \<in> set (requested_names font glyphNames). t n \<noteq> None)"
proof -
  let ?names = "requested_names font glyphNames"
  obtain h where h: "hmtx font = Some h"
    using assms unfolding fix_true_type_contours_def by (cases "hmtx font") auto
  obtain ks where ks: "glyph_keys L t ?names = Inr ks"
    using assms h unfolding fix_true_type_contours_def requested_names_def Let_def
    by (cases "glyph_keys L t (case glyphNames of None \<Rightarrow> glyphOrder font | Some ns \<Rightarrow> ns)") auto
  from glyph_keys_Inr [OF ks]
  have ks_eq: "ks = map (glyph_key L t) ?names" and dom: "\<forall>n \<in> set ?names. t n \<noteq> None"
    by auto
  let ?S = "map snd (sort ks)"
  let ?P = "process_glyphs L ?S t h rh ie {} []"
  have tr: "trace = fst ?P"
    using assms(1,2) h ks unfolding fix_true_type_contours_def requested_names_def Let_def
    by (auto split: prod.splits sum.splits)
  have ok: "(\<exists>f. r = Inr f) \<longrightarrow> (\<exists>x. snd ?P = Inr x)"
    using assms(1,2) h ks unfolding fix_true_type_contours_def requested_names_def Let_def
    by (auto split: prod.splits sum.splits)
  from process_glyphs_trace [of ?S L t h rh ie "{}" "[]"]
  obtain k where k: "k \<le> length ?S" "fst ?P = take k ?S"
    "(\<exists>x. snd ?P = Inr x) \<longrightarrow> k = length ?S"
    by auto
  show ?thesis
    using tr k ok dom unfolding ks_eq [symmetric] by auto
qed

lemma sorted_names_keys:
  "map (glyph_key L t) (map snd (sort (map (glyph_key L t) ns))) = sort (map (glyph_key L t) ns)"
proof -
  have id: "map (glyph_key L t \<circ> snd) xs = xs" if "\<forall>x \<in> set xs. glyph_key L t (snd x) = x"
    for xs :: "(int \<times> string) list"
    using that by (induction xs) auto
  have "\<forall>x \<in> set (sort (map (glyph_key L t) ns)). glyph_key L t (snd x) = x"
    by (auto simp add: snd_glyph_key)
  from id [OF this] show ?thesis by simp
qed

lemma sorted_trace_keys:
  "sorted (map (glyph_key L t) (take k (map snd (sort (map (glyph_key L t) ns)))))"
proof -
  have "map (glyph_key L t) (take k (map snd (sort (map (glyph_key L t) ns)))) =
        take k (sort (map (glyph_key L t) ns))"
    by (simp only: take_map [symmetric] sorted_names_keys)
  then show ?thesis by simp
qed

lemma glyph_key_less:
  assumes "depth_contract L t" and "t n = Some g" and "isComposite g"
    and "c \<in> set (components g)" and "t (glyphName c) = Some b"
  shows "glyph_key L t (glyphName c) < glyph_key L t n"
proof -
  from assms(1,2,3) have d1: "1 \<le> maxComponentDepth L t g"
    unfolding depth_contract_def by blast
  have "component_depth L t b < component_depth L t g"
  proof (cases "isComposite b")
    case True
    with assms have "maxComponentDepth L t b < maxComponentDepth L t g"
      unfolding depth_contract_def by blast
    with True assms(3) show ?thesis by (simp add: component_depth_def)
  next
    case False
    with d1 assms(3) show ?thesis by (simp add: component_depth_def)
  qed
  with assms(2,5) show ?thesis
    by (simp add: glyph_key_def less_prod_def)
qed

text \<open>
  C2, amended. The names are handed to \<open>removeTTGlyphOverlaps\<close> in the order of their
  keys: the component depth never decreases along the trace, and names of equal depth come
  in lexicographic order. With the font library's depth (at least 1 for a composite glyph,
  larger than that of its composite components), every glyph that is not composite comes
  before every composite glyph. When the function returns normally, the trace is a
  permutation of the requested names. At the call for a composite glyph, each of its base
  glyphs that is among the requested names has been processed before.
\<close>

theorem fix_true_type_contours_order:
  assumes "glyf font = Some t" and "depth_contract L t"
    and "fix_true_type_contours L font glyphNames rh ie = (trace, r)"
  shows "(\<forall>i j. i < j \<and> j < length trace \<longrightarrow>
            fst (glyph_key L t (trace ! i)) \<le> fst (glyph_key L t (trace ! j)) \<and>
            (fst (glyph_key L t (trace ! i)) = fst (glyph_key L t (trace ! j)) \<longrightarrow>
               trace ! i \<le> trace ! j)) \<and>
         (\<forall>i j a b. i < length trace \<and> j < length trace \<and> t (trace ! i) = Some a \<and>
            t (trace ! j) = Some b \<and> \<not> isComposite a \<and> isComposite b \<longrightarrow> i < j) \<and>
         ((\<exists>f. r = Inr f) \<longrightarrow> mset trace = mset (requested_names font glyphNames)) \<and>
         wanted_bases_processed_before (requested_names font glyphNames) t trace"
proof (cases "trace \<noteq> [] \<or> (\<exists>f. r = Inr f)")
  case False
  then show ?thesis by (simp add: wanted_bases_processed_before_def)
next
  case True
  let ?names = "requested_names font glyphNames"
  let ?K = "glyph_key L t"
  let ?S = "map snd (sort (map ?K ?names))"
  from fix_true_type_contours_trace [OF assms(1,3) True]
  obtain k where tr: "trace = take k ?S"
    and all: "(\<exists>f. r = Inr f) \<longrightarrow> trace = ?S"
    and dom: "\<forall>n \<in> set ?names. t n \<noteq> None"
    by blast
  have srt: "sorted (map ?K trace)"
    unfolding tr by (rule sorted_trace_keys)
  have mono: "?K (trace ! i) \<le> ?K (trace ! j)" if "i \<le> j" "j < length trace" for i j
    using sorted_nth_mono [OF srt, of i j] that by simp
  have p1: "\<forall>i j. i < j \<and> j < length trace \<longrightarrow>
            fst (?K (trace ! i)) \<le> fst (?K (trace ! j)) \<and>
            (fst (?K (trace ! i)) = fst (?K (trace ! j)) \<longrightarrow> trace ! i \<le> trace ! j)"
  proof (intro allI impI)
    fix i j assume ij: "i < j \<and> j < length trace"
    then have "?K (trace ! i) \<le> ?K (trace ! j)" using mono [of i j] by simp
    then show "fst (?K (trace ! i)) \<le> fst (?K (trace ! j)) \<and>
            (fst (?K (trace ! i)) = fst (?K (trace ! j)) \<longrightarrow> trace ! i \<le> trace ! j)"
      using snd_glyph_key [of L t "trace ! i"] snd_glyph_key [of L t "trace ! j"]
      by (auto simp add: less_eq_prod_def)
  qed
  have p2: "\<forall>i j a b. i < length trace \<and> j < length trace \<and> t (trace ! i) = Some a \<and>
            t (trace ! j) = Some b \<and> \<not> isComposite a \<and> isComposite b \<longrightarrow> i < j"
  proof (intro allI impI)
    fix i j a b
    assume h: "i < length trace \<and> j < length trace \<and> t (trace ! i) = Some a \<and>
            t (trace ! j) = Some b \<and> \<not> isComposite a \<and> isComposite b"
    show "i < j"
    proof (rule ccontr)
      assume "\<not> i < j"
      then have "j \<le> i" by simp
      with h have le: "?K (trace ! j) \<le> ?K (trace ! i)" using mono [of j i] by simp
      from h assms(2) have "1 \<le> maxComponentDepth L t b"
        unfolding depth_contract_def by blast
      with h have "fst (?K (trace ! i)) < fst (?K (trace ! j))"
        by (simp add: glyph_key_def component_depth_def)
      with le show False by (auto simp add: less_eq_prod_def)
    qed
  qed
  have p3: "(\<exists>f. r = Inr f) \<longrightarrow> mset trace = mset ?names"
  proof
    assume "\<exists>f. r = Inr f"
    with all have "trace = ?S" by simp
    then have "mset trace = image_mset snd (mset (map ?K ?names))" by simp
    also have "\<dots> = mset ?names"
      by (simp add: image_mset.compositionality comp_def snd_glyph_key)
    finally show "mset trace = mset ?names" .
  qed
  have p4: "wanted_bases_processed_before ?names t trace"
    unfolding wanted_bases_processed_before_def list_all_iff
  proof (intro ballI)
    fix j assume "j \<in> set [0 ..< length trace]"
    then have j: "j < length trace" by simp
    show "case t (trace ! j) of None \<Rightarrow> True
      | Some g \<Rightarrow> \<not> isComposite g \<or>
          (\<forall>c \<in> set (components g). glyphName c \<notin> set ?names \<or> glyphName c \<in> set (take j trace))"
    proof (cases "t (trace ! j)")
      case None
      then show ?thesis by simp
    next
      case (Some g)
      have "glyphName c \<in> set (take j trace)"
        if comp: "isComposite g" and c: "c \<in> set (components g)"
          and w: "glyphName c \<in> set ?names" for c
      proof -
        from dom w obtain b where b: "t (glyphName c) = Some b" by auto
        from glyph_key_less [OF assms(2) Some comp c b]
        have less: "?K (glyphName c) < ?K (trace ! j)" .
        from w have "glyphName c \<in> set ?S" by (simp add: image_iff snd_glyph_key)
        then obtain i where i: "i < length ?S" "?S ! i = glyphName c"
          by (meson in_set_conv_nth)
        have srtS: "sorted (map ?K ?S)"
          using sorted_trace_keys [of L t "length ?S" ?names] by simp
        have jS: "j < length ?S" "trace ! j = ?S ! j"
          using j unfolding tr by auto
        have "i < j"
        proof (rule ccontr)
          assume "\<not> i < j"
          then have "j \<le> i" by simp
          with sorted_nth_mono [OF srtS, of j i] i have "?K (?S ! j) \<le> ?K (?S ! i)" by simp
          with less i jS show False by simp
        qed
        with i jS j have "take j trace ! i = glyphName c" "i < length (take j trace)"
          unfolding tr by auto
        then show ?thesis by (metis nth_mem)
      qed
      with Some show ?thesis by auto
    qed
  qed
  from p1 p2 p3 p4 show ?thesis by blast
qed


lemma abc_depth_contract: "depth_contract plain_lib abc_table"
  unfolding depth_contract_def
  by (auto simp add: plain_lib_def abc_table_def glyph_a_def glyph_b_def glyph_c_def
      isComposite_def split: if_splits)

lemma abc_trace_all:
  "fst (fix_true_type_contours plain_lib abc_font None True False) = [''a'', ''b'', ''c'']"
  by code_simp

lemma abc_trace_c:
  "fst (fix_true_type_contours plain_lib abc_font (Some [''c'']) True False) = [''c'']"
  by code_simp

text \<open>
  C2, as the claim states it, fails in its last part: asked to process the composite glyph
  \<open>c\<close> alone, the function tests the components of \<open>c\<close> for overlap while its base
  glyphs \<open>a\<close> and \<open>b\<close> have not been processed (and never are).
\<close>

theorem fix_true_type_contours_bases_counterexample:
  "\<not> bases_processed_before abc_table
       (fst (fix_true_type_contours plain_lib abc_font (Some [''c'']) True False))"
  unfolding abc_trace_c
  by (simp add: bases_processed_before_def abc_table_def glyph_c_def isComposite_def)

theorem fix_true_type_contours_order_witness:
  "glyf abc_font = Some abc_table \<and> depth_contract plain_lib abc_table \<and>
   fst (fix_true_type_contours plain_lib abc_font None True False) = [''a'', ''b'', ''c''] \<and>
   wanted_bases_processed_before (requested_names abc_font None) abc_table [''a'', ''b'', ''c'']"
proof -
  have g: "glyf abc_font = Some abc_table" by (simp add: abc_font_def)
  have r: "fix_true_type_contours plain_lib abc_font None True False =
     ([''a'', ''b'', ''c''], snd (fix_true_type_contours plain_lib abc_font None True False))"
    using abc_trace_all by (metis prod.collapse)
  from fix_true_type_contours_order [OF g abc_depth_contract r] g abc_depth_contract abc_trace_all
  show ?thesis by blast
qed

section \<open>Properties of the name table commands\<close>

lemma process_font_changed:
  assumes "mutate (ntable font) = Inr t'"
    and "compile E (ntable font) (font\<lparr>ntable := t'\<rparr>) = Inr b1"
    and "compile E t' (font\<lparr>ntable := t'\<rparr>) = Inr b2"
  shows "process_font E mutate cf out ow font d =
    (if b1 \<noteq> b2 then
       (case save E (font\<lparr>ntable := t'\<rparr>) (makeOutputFileName E (file_name font) out ow) d of
          (d', None) \<Rightarrow> ([FileSaved (makeOutputFileName E (file_name font) out ow)], d')
        | (d', Some e) \<Rightarrow> ([GenericError e], d'))
     else ([FileNotChanged (file_name font)], d))"
  using assms unfolding process_font_def Let_def
  by (cases cf) (auto split: prod.splits option.splits)

lemma process_font_effect:
  assumes "FileSaved p \<in> set (fst (process_font E mutate cf out ow font d)) \<or>
           snd (process_font E mutate cf out ow font d) \<noteq> d"
  shows "\<exists>t' b1 b2. mutate (ntable font) = Inr t' \<and>
      compile E (ntable font) (font\<lparr>ntable := t'\<rparr>) = Inr b1 \<and>
      compile E t' (font\<lparr>ntable := t'\<rparr>) = Inr b2 \<and> b1 \<noteq> b2 \<and>
      snd (process_font E mutate cf out ow font d) =
        fst (save E (font\<lparr>ntable := t'\<rparr>) (makeOutputFileName E (file_name font) out ow) d)"
proof (cases "mutate (ntable font)")
  case (Inl e)
  with assms show ?thesis unfolding process_font_def Let_def by auto
next
  case (Inr t')
  show ?thesis
  proof (cases "compile E (ntable font) (font\<lparr>ntable := t'\<rparr>)")
    case (Inl e)
    with Inr assms show ?thesis unfolding process_font_def Let_def
      by (cases cf) (auto split: sum.splits)
  next
    case b1: (Inr b1)
    show ?thesis
    proof (cases "compile E t' (font\<lparr>ntable := t'\<rparr>)")
      case (Inl e)
      with Inr b1 assms show ?thesis unfolding process_font_def Let_def
        by (cases cf) (auto split: sum.splits)
    next
      case b2: (Inr b2)
      have eq: "process_font E mutate cf out ow font d =
        (if b1 \<noteq> b2 then
           (case save E (font\<lparr>ntable := t'\<rparr>) (makeOutputFileName E (file_name font) out ow) d of
              (d', None) \<Rightarrow> ([FileSaved (makeOutputFileName E (file_name font) out ow)], d')
            | (d', Some e) \<Rightarrow> ([GenericError e], d'))
         else ([FileNotChanged (file_name font)], d))"
        using Inr b1 b2 by (rule process_font_changed)
      from eq assms have ne: "b1 \<noteq> b2" by (auto split: if_splits)
      with eq have "snd (process_font E mutate cf out ow font d) =
        fst (save E (font\<lparr>ntable := t'\<rparr>) (makeOutputFileName E (file_name font) out ow) d)"
        by (auto split: prod.splits option.splits)
      with Inr b1 b2 ne show ?thesis by blast
    qed
  qed
qed

text \<open>
  The loop handles the fonts one after the other: each font is handled on the disk that
  the fonts before it left, and the fonts after it on the disk that it left.
\<close>

lemma for_fonts_append:
  "for_fonts body (pre @ post) d =
     (case for_fonts body pre d of
        (ms1, d1) \<Rightarrow> (case for_fonts body post d1 of (ms2, d2) \<Rightarrow> (ms1 @ ms2, d2)))"
  by (induction pre arbitrary: d) (auto split: prod.splits)

lemma for_fonts_split:
  "for_fonts body (pre @ font # post) d =
     (case for_fonts body pre d of
        (ms1, d1) \<Rightarrow>
          (case body font d1 of
             (ms2, d2) \<Rightarrow>
               (case for_fonts body post d2 of (ms3, d3) \<Rightarrow> (ms1 @ ms2 @ ms3, d3))))"
  unfolding for_fonts_append by (auto split: prod.splits)

lemma demo_del_names:
  "del_names demo_env [titled_font, demo_font] ''out'' True [1] None None True Map.empty =
     ([FileSaved ''out/t.ttf'', FileNotChanged ''a.ttf''],
      [''out/t.ttf'' \<mapsto> titled_font\<lparr>ntable := []\<rparr>])"
  by (simp add: del_names_def process_font_def demo_env_def demo_font_def titled_font_def Let_def)

lemma demo_compile:
  "compile demo_env (ntable titled_font) f = Inr [''T'']"
  "compile demo_env [] f = Inr []"
  "compile demo_env (ntable demo_font) f = Inr []"
  "tbl_del_names demo_env (IdTuple [1]) None None (ntable titled_font) = Inr []"
  "tbl_del_names demo_env (IdTuple [1]) None None (ntable demo_font) = Inr []"
  by (simp_all add: demo_env_def demo_font_def titled_font_def)

text \<open>
  C8. Each of the commands set-name, del-names, find-replace, del-mac-names and append
  handles every font of its list with the loop body \<open>process_font\<close> and its own
  method: the fonts before a font first, then the font on the disk that they left, then
  the fonts after it on the disk that it left, the messages in that order. For a font
  whose method and two compilations succeed, the body calls \<open>save\<close> (and prints the
  file-saved message when \<open>save\<close> succeeds) if the compiled bytes of the changed table
  differ from those of the copy made before the change; if they are equal it prints the
  file-not-changed message, saves nothing and leaves the disk as it was. Conversely, a
  file-saved message or a changed disk occur for a font only when the method and the
  compilations succeeded and the bytes differ, and the disk is then the one \<open>save\<close>
  left.
\<close>

theorem name_commands_save_iff_changed:
  "set_name E (pre @ font # post) out True name_id platform_id s language ow d =
     (case set_name E pre out True name_id platform_id s language ow d of
        (ms1, d1) \<Rightarrow>
          (case process_font E (tbl_add_name E font name_id s platform_id language) False out ow
                  font d1 of
             (ms2, d2) \<Rightarrow>
               (case set_name E post out True name_id platform_id s language ow d2 of
                  (ms3, d3) \<Rightarrow> (ms1 @ ms2 @ ms3, d3)))) \<and>
   del_names E (pre @ font # post) out True ids platform_id language_opt ow d =
     (case del_names E pre out True ids platform_id language_opt ow d of
        (ms1, d1) \<Rightarrow>
          (case process_font E (tbl_del_names E (IdTuple ids) platform_id language_opt) False
                  out ow font d1 of
             (ms2, d2) \<Rightarrow>
               (case del_names E post out True ids platform_id language_opt ow d2 of
                  (ms3, d3) \<Rightarrow> (ms1 @ ms2 @ ms3, d3)))) \<and>
   find_replace E (pre @ font # post) out True old new ids excluded platform_id ow d =
     (case find_replace E pre out True old new ids excluded platform_id ow d of
        (ms1, d1) \<Rightarrow>
          (case process_font E (tbl_find_replace E old new ids excluded platform_id) False
                  out ow font d1 of
             (ms2, d2) \<Rightarrow>
               (case find_replace E post out True old new ids excluded platform_id ow d2 of
                  (ms3, d3) \<Rightarrow> (ms1 @ ms2 @ ms3, d3)))) \<and>
   del_mac_names E (pre @ font # post) out True del_all ow d =
     (case del_mac_names E pre out True del_all ow d of
        (ms1, d1) \<Rightarrow>
          (case process_font E
                  (\<lambda>t. tbl_del_names E
                     (IdSet (if del_all then nameID ` {r \<in> set t. platformID r = 1}
                             else nameID ` {r \<in> set t. platformID r = 1} - {1, 2, 4, 5, 6}))
                     (Some 1) None t)
                  False out ow font d1 of
             (ms2, d2) \<Rightarrow>
               (case del_mac_names E post out True del_all ow d2 of
                  (ms3, d3) \<Rightarrow> (ms1 @ ms2 @ ms3, d3)))) \<and>
   (prefix \<noteq> None \<or> suffix \<noteq> None \<longrightarrow>
    append_command E (pre @ font # post) out True ids platform_id language_opt prefix suffix ow
        msg d =
     (case append_command E pre out True ids platform_id language_opt prefix suffix ow msg d of
        (ms1, d1) \<Rightarrow>
          (case process_font E
                  (tbl_append_string E ids platform_id language_opt prefix suffix) True
                  out ow font d1 of
             (ms2, d2) \<Rightarrow>
               (case append_command E post out True ids platform_id language_opt prefix suffix
                       ow msg d2 of
                  (ms3, d3) \<Rightarrow> (ms1 @ ms2 @ ms3, d3))))) \<and>
   (\<forall>t' b1 b2. mutate (ntable font) = Inr t' \<and>
      compile E (ntable font) (font\<lparr>ntable := t'\<rparr>) = Inr b1 \<and>
      compile E t' (font\<lparr>ntable := t'\<rparr>) = Inr b2 \<longrightarrow>
      (b1 \<noteq> b2 \<longrightarrow>
         process_font E mutate cf out ow font d =
           (case save E (font\<lparr>ntable := t'\<rparr>)
                   (makeOutputFileName E (file_name font) out ow) d of
              (d', None) \<Rightarrow> ([FileSaved (makeOutputFileName E (file_name font) out ow)], d')
            | (d', Some e) \<Rightarrow> ([GenericError e], d'))) \<and>
      (b1 = b2 \<longrightarrow>
         process_font E mutate cf out ow font d = ([FileNotChanged (file_name font)], d))) \<and>
   ((\<exists>p. FileSaved p \<in> set (fst (process_font E mutate cf out ow font d))) \<or>
    snd (process_font E mutate cf out ow font d) \<noteq> d \<longrightarrow>
      (\<exists>t' b1 b2. mutate (ntable font) = Inr t' \<and>
         compile E (ntable font) (font\<lparr>ntable := t'\<rparr>) = Inr b1 \<and>
         compile E t' (font\<lparr>ntable := t'\<rparr>) = Inr b2 \<and> b1 \<noteq> b2 \<and>
         snd (process_font E mutate cf out ow font d) =
           fst (save E (font\<lparr>ntable := t'\<rparr>)
                  (makeOutputFileName E (file_name font) out ow) d)))"
proof -
  have 1: "set_name E (pre @ font # post) out True name_id platform_id s language ow d =
     (case set_name E pre out True name_id platform_id s language ow d of
        (ms1, d1) \<Rightarrow>
          (case process_font E (tbl_add_name E font name_id s platform_id language) False out ow
                  font d1 of
             (ms2, d2) \<Rightarrow>
               (case set_name E post out True name_id platform_id s language ow d2 of
                  (ms3, d3) \<Rightarrow> (ms1 @ ms2 @ ms3, d3))))"
    unfolding set_name_def by (simp only: for_fonts_split if_False not_True_eq_False)
  have 2: "del_names E (pre @ font # post) out True ids platform_id language_opt ow d =
     (case del_names E pre out True ids platform_id language_opt ow d of
        (ms1, d1) \<Rightarrow>
          (case process_font E (tbl_del_names E (IdTuple ids) platform_id language_opt) False
                  out ow font d1 of
             (ms2, d2) \<Rightarrow>
               (case del_names E post out True ids platform_id language_opt ow d2 of
                  (ms3, d3) \<Rightarrow> (ms1 @ ms2 @ ms3, d3))))"
    unfolding del_names_def by (simp only: for_fonts_split if_False not_True_eq_False)
  have 3: "find_replace E (pre @ font # post) out True old new ids excluded platform_id ow d =
     (case find_replace E pre out True old new ids excluded platform_id ow d of
        (ms1, d1) \<Rightarrow>
          (case process_font E (tbl_find_replace E old new ids excluded platform_id) False
                  out ow font d1 of
             (ms2, d2) \<Rightarrow>
               (case find_replace E post out True old new ids excluded platform_id ow d2 of
                  (ms3, d3) \<Rightarrow> (ms1 @ ms2 @ ms3, d3))))"
    unfolding find_replace_def by (simp only: for_fonts_split if_False not_True_eq_False)
  have m: "(\<lambda>name_table.
                let ids = nameID ` {r \<in> set name_table. platformID r = 1};
                    ids' = (if \<not> del_all then ids - {1, 2, 4, 5, 6} else ids)
                in tbl_del_names E (IdSet ids') (Some 1) None name_table) =
     (\<lambda>t. tbl_del_names E
                     (IdSet (if del_all then nameID ` {r \<in> set t. platformID r = 1}
                             else nameID ` {r \<in> set t. platformID r = 1} - {1, 2, 4, 5, 6}))
                     (Some 1) None t)"
    by (rule ext) (simp add: Let_def)
  have 4: "del_mac_names E (pre @ font # post) out True del_all ow d =
     (case del_mac_names E pre out True del_all ow d of
        (ms1, d1) \<Rightarrow>
          (case process_font E
                  (\<lambda>t. tbl_del_names E
                     (IdSet (if del_all then nameID ` {r \<in> set t. platformID r = 1}
                             else nameID ` {r \<in> set t. platformID r = 1} - {1, 2, 4, 5, 6}))
                     (Some 1) None t)
                  False out ow font d1 of
             (ms2, d2) \<Rightarrow>
               (case del_mac_names E post out True del_all ow d2 of
                  (ms3, d3) \<Rightarrow> (ms1 @ ms2 @ ms3, d3))))"
    unfolding del_mac_names_def m by (simp only: for_fonts_split if_False not_True_eq_False)
  have 5: "prefix \<noteq> None \<or> suffix \<noteq> None \<longrightarrow>
    append_command E (pre @ font # post) out True ids platform_id language_opt prefix suffix ow
        msg d =
     (case append_command E pre out True ids platform_id language_opt prefix suffix ow msg d of
        (ms1, d1) \<Rightarrow>
          (case process_font E
                  (tbl_append_string E ids platform_id language_opt prefix suffix) True
                  out ow font d1 of
             (ms2, d2) \<Rightarrow>
               (case append_command E post out True ids platform_id language_opt prefix suffix
                       ow msg d2 of
                  (ms3, d3) \<Rightarrow> (ms1 @ ms2 @ ms3, d3))))"
  proof
    assume "prefix \<noteq> None \<or> suffix \<noteq> None"
    then have a: "\<not> (prefix = None \<and> suffix = None)" by simp
    show "append_command E (pre @ font # post) out True ids platform_id language_opt prefix suffix ow
        msg d =
     (case append_command E pre out True ids platform_id language_opt prefix suffix ow msg d of
        (ms1, d1) \<Rightarrow>
          (case process_font E
                  (tbl_append_string E ids platform_id language_opt prefix suffix) True
                  out ow font d1 of
             (ms2, d2) \<Rightarrow>
               (case append_command E post out True ids platform_id language_opt prefix suffix
                       ow msg d2 of
                  (ms3, d3) \<Rightarrow> (ms1 @ ms2 @ ms3, d3))))"
      unfolding append_command_def
      by (simp only: a for_fonts_split if_False not_True_eq_False)
  qed
  have 6: "\<forall>t' b1 b2. mutate (ntable font) = Inr t' \<and>
      compile E (ntable font) (font\<lparr>ntable := t'\<rparr>) = Inr b1 \<and>
      compile E t' (font\<lparr>ntable := t'\<rparr>) = Inr b2 \<longrightarrow>
      (b1 \<noteq> b2 \<longrightarrow>
         process_font E mutate cf out ow font d =
           (case save E (font\<lparr>ntable := t'\<rparr>)
                   (makeOutputFileName E (file_name font) out ow) d of
              (d', None) \<Rightarrow> ([FileSaved (makeOutputFileName E (file_name font) out ow)], d')
            | (d', Some e) \<Rightarrow> ([GenericError e], d'))) \<and>
      (b1 = b2 \<longrightarrow>
         process_font E mutate cf out ow font d = ([FileNotChanged (file_name font)], d))"
    using process_font_changed [of mutate font _ E _ _ cf out ow d] by simp
  have 7: "(\<exists>p. FileSaved p \<in> set (fst (process_font E mutate cf out ow font d))) \<or>
    snd (process_font E mutate cf out ow font d) \<noteq> d \<longrightarrow>
      (\<exists>t' b1 b2. mutate (ntable font) = Inr t' \<and>
         compile E (ntable font) (font\<lparr>ntable := t'\<rparr>) = Inr b1 \<and>
         compile E t' (font\<lparr>ntable := t'\<rparr>) = Inr b2 \<and> b1 \<noteq> b2 \<and>
         snd (process_font E mutate cf out ow font d) =
           fst (save E (font\<lparr>ntable := t'\<rparr>)
                  (makeOutputFileName E (file_name font) out ow) d))"
    using process_font_effect [of _ E mutate cf out ow font d] by blast
  show ?thesis
    by (intro conjI 1 2 3 4 5 6 7)
qed


lemma demo_save:
  "save demo_env f p d = (d(p \<mapsto> f), None)"
  "makeOutputFileName demo_env file dir ow = dir @ ''/'' @ file"
  "file_name titled_font = ''t.ttf''"
  by (simp_all add: demo_env_def titled_font_def)

theorem name_commands_save_iff_changed_witness:
  "tbl_del_names demo_env (IdTuple [1]) None None (ntable titled_font) = Inr [] \<and>
   compile demo_env (ntable titled_font) (titled_font\<lparr>ntable := []\<rparr>) = Inr [''T''] \<and>
   compile demo_env [] (titled_font\<lparr>ntable := []\<rparr>) = Inr [] \<and>
   process_font demo_env (tbl_del_names demo_env (IdTuple [1]) None None) False ''out'' True
     titled_font Map.empty =
     ([FileSaved ''out/t.ttf''], [''out/t.ttf'' \<mapsto> titled_font\<lparr>ntable := []\<rparr>]) \<and>
   del_names demo_env ([] @ titled_font # [demo_font]) ''out'' True [1] None None True Map.empty =
     ([FileSaved ''out/t.ttf'', FileNotChanged ''a.ttf''],
      [''out/t.ttf'' \<mapsto> titled_font\<lparr>ntable := []\<rparr>])"
proof -
  note t = name_commands_save_iff_changed [where E = demo_env and pre = "[]"
      and font = titled_font and post = "[demo_font]" and out = "''out''" and ids = "[1]"
      and platform_id = None and language_opt = None and ow = True and d = Map.empty
      and mutate = "tbl_del_names demo_env (IdTuple [1]) None None" and cf = False]
  from t have g: "\<forall>t' b1 b2.
      tbl_del_names demo_env (IdTuple [1]) None None (ntable titled_font) = Inr t' \<and>
      compile demo_env (ntable titled_font) (titled_font\<lparr>ntable := t'\<rparr>) = Inr b1 \<and>
      compile demo_env t' (titled_font\<lparr>ntable := t'\<rparr>) = Inr b2 \<longrightarrow>
      (b1 \<noteq> b2 \<longrightarrow>
         process_font demo_env (tbl_del_names demo_env (IdTuple [1]) None None) False ''out''
             True titled_font Map.empty =
           (case save demo_env (titled_font\<lparr>ntable := t'\<rparr>)
                   (makeOutputFileName demo_env (file_name titled_font) ''out'' True)
                   Map.empty of
              (d', None) \<Rightarrow>
                ([FileSaved (makeOutputFileName demo_env (file_name titled_font) ''out'' True)],
                 d')
            | (d', Some e) \<Rightarrow> ([GenericError e], d')))"
    by blast
  have p: "process_font demo_env (tbl_del_names demo_env (IdTuple [1]) None None) False ''out''
      True titled_font Map.empty =
     ([FileSaved ''out/t.ttf''], [''out/t.ttf'' \<mapsto> titled_font\<lparr>ntable := []\<rparr>])"
    using g [rule_format, of "[]" "[''T'']" "[]"] by (simp add: demo_compile demo_save)
  show ?thesis
    using p demo_del_names by (simp add: demo_compile)
qed

section \<open>Properties of the name table of TTFontCLI\<close>

lemma set_zz_once:
  "setMultilingualName demo_lib 1 ''zz'' ''X'' True True empty_font =
     empty_font\<lparr>names := [\<lparr>nameID = 1, platformID = 0, platEncID = 4, langID = 0,
        nameString = ''X''\<rparr>], ltag := Some [''zz'']\<rparr>"
  by (simp add: setMultilingualName_def delMultilingualName_def addMultilingualName_def
      removeNames_def demo_lib_def empty_font_def ascii_lower_def addTag_def Let_def)

lemma set_zz_twice:
  "setMultilingualName demo_lib 1 ''zz'' ''X'' True True
     (setMultilingualName demo_lib 1 ''zz'' ''X'' True True empty_font) =
     empty_font\<lparr>names := [\<lparr>nameID = 1, platformID = 0, platEncID = 4, langID = 0,
        nameString = ''X''\<rparr>, \<lparr>nameID = 1, platformID = 0, platEncID = 4, langID = 0,
        nameString = ''X''\<rparr>], ltag := Some [''zz'']\<rparr>"
  unfolding set_zz_once
  by (simp add: setMultilingualName_def delMultilingualName_def addMultilingualName_def
      removeNames_def demo_lib_def empty_font_def ascii_lower_def addTag_def Let_def)

lemma set_en_symbol:
  "names (setMultilingualName demo_lib 1 ''en'' ''New'' True True symbol_font) =
     [\<lparr>nameID = 1, platformID = 3, platEncID = 0, langID = 1033, nameString = ''Sym''\<rparr>,
      \<lparr>nameID = 1, platformID = 3, platEncID = 1, langID = 1033, nameString = ''New''\<rparr>,
      \<lparr>nameID = 1, platformID = 1, platEncID = 0, langID = 0, nameString = ''New''\<rparr>]"
  by (simp add: setMultilingualName_def delMultilingualName_def addMultilingualName_def
      removeNames_def demo_lib_def empty_font_def symbol_font_def ascii_lower_def Let_def)

text \<open>
  C6, as the claim states it, fails twice. For a language that has neither a Windows nor
  a Macintosh code the name is stored as a Unicode record, which the deletions of
  \<open>setMultilingualName\<close> do not reach, so a second call adds a second record. And not
  every record of the name id and language on a targeted platform is deleted: an English
  Windows record with the encoding id 0 is still there after the English name is set on
  both platforms.
\<close>

theorem setMultilingualName_twice_counterexample:
  "setMultilingualName demo_lib 1 ''zz'' ''X'' True True
     (setMultilingualName demo_lib 1 ''zz'' ''X'' True True empty_font) \<noteq>
   setMultilingualName demo_lib 1 ''zz'' ''X'' True True empty_font \<and>
   getName 1 3 0 (Some 1033) (names symbol_font) =
     Some \<lparr>nameID = 1, platformID = 3, platEncID = 0, langID = 1033, nameString = ''Sym''\<rparr> \<and>
   getName 1 3 0 (Some 1033)
       (names (setMultilingualName demo_lib 1 ''en'' ''New'' True True symbol_font)) =
     Some \<lparr>nameID = 1, platformID = 3, platEncID = 0, langID = 1033, nameString = ''Sym''\<rparr>"
  unfolding set_zz_twice set_en_symbol unfolding set_zz_once
  by (simp add: empty_font_def symbol_font_def getName_def)

lemma removeNames_all_given:
  "removeNames (Some a) (Some b) (Some c) (Some d) ns =
     filter (\<lambda>r. \<not> (nameID r = a \<and> platformID r = b \<and> platEncID r = c \<and> langID r = d)) ns"
  unfolding removeNames_def by (auto intro: filter_cong)

lemma fold_removeNames:
  "fold (\<lambda>r ns. if nameID r = nid
           then removeNames (Some (nameID r)) (Some (platformID r))
                  (Some (platEncID r)) (Some (langID r)) ns
           else ns) xs ns =
   filter (\<lambda>r. \<not> (\<exists>x \<in> set xs. nameID x = nid \<and> same_ids x r)) ns"
proof (induction xs arbitrary: ns)
  case Nil
  show ?case by simp
next
  case (Cons x xs)
  show ?case
    by (simp add: Cons.IH removeNames_all_given same_ids_def)
qed

lemma fold_removeNames_self:
  "fold (\<lambda>r ns. if nameID r = nid
           then removeNames (Some (nameID r)) (Some (platformID r))
                  (Some (platEncID r)) (Some (langID r)) ns
           else ns) ns ns =
   filter (\<lambda>r. nameID r \<noteq> nid) ns"
  unfolding fold_removeNames
  by (rule filter_cong) (auto simp add: same_ids_def)

lemma delMultilingualName_filter:
  assumes "windows \<longrightarrow> WINDOWS_LANGUAGE_CODES N (str_lower N language) = Some wl"
    and "mac \<longrightarrow> MAC_LANGUAGE_CODES N (str_lower N language) = Some ml \<and>
           MAC_LANGUAGE_TO_SCRIPT N ml = Some sc"
  shows "delMultilingualName N nid language windows mac f =
     f\<lparr>names := filter (kept nid language windows mac wl ml sc) (names f)\<rparr>"
proof (cases "language = ''ALL''")
  case True
  then show ?thesis
    unfolding delMultilingualName_def Let_def kept_def
    by (simp add: fold_removeNames_self)
next
  case False
  have w: "removeNames (Some nid) (Some 3) (Some 1) (Some wl) ns =
      filter (\<lambda>r. \<not> (nameID r = nid \<and> platformID r = 3 \<and> platEncID r = 1 \<and> langID r = wl)) ns"
    for ns by (rule removeNames_all_given)
  have m: "removeNames (Some nid) (Some 1) (Some sc) (Some ml) ns =
      filter (\<lambda>r. \<not> (nameID r = nid \<and> platformID r = 1 \<and> platEncID r = sc \<and> langID r = ml)) ns"
    for ns by (rule removeNames_all_given)
  show ?thesis
  proof (cases windows)
    case wT: True
    show ?thesis
    proof (cases mac)
      case True
      with wT False assms show ?thesis
        unfolding delMultilingualName_def Let_def kept_def
        by (simp add: w m)
    next
      case mF: False
      with wT False assms show ?thesis
        unfolding delMultilingualName_def Let_def kept_def
        by (simp add: w)
    qed
  next
    case wF: False
    show ?thesis
    proof (cases mac)
      case True
      with wF False assms show ?thesis
        unfolding delMultilingualName_def Let_def kept_def
        by (simp add: m)
    next
      case mF: False
      with wF False show ?thesis
        unfolding delMultilingualName_def Let_def kept_def
        by simp
    qed
  qed
qed

lemma kept_both:
  "(kept nid language True False wl ml sc r \<and> kept nid language False True wl ml sc r) =
   kept nid language True True wl ml sc r"
  by (auto simp add: kept_def)

lemma stays_kept:
  "windows \<or> mac \<Longrightarrow>
     stays nid language windows mac wl ml sc = kept nid language windows mac wl ml sc"
  by (rule ext) (simp add: stays_def)

lemma stays_none: "stays nid language False False wl ml sc = (\<lambda>r. True)"
  by (rule ext) (simp add: stays_def)

lemma addMultilingualName_known:
  assumes "windows \<longrightarrow> WINDOWS_LANGUAGE_CODES N (str_lower N language) = Some wl"
    and "mac \<longrightarrow> MAC_LANGUAGE_CODES N (str_lower N language) = Some ml \<and>
           MAC_LANGUAGE_TO_SCRIPT N ml = Some sc \<and> mac_encodable N sc ml s"
  shows "addMultilingualName N language s windows mac nid g =
     g\<lparr>names := names g @ added nid s windows mac wl ml sc\<rparr>"
  using assms unfolding addMultilingualName_def added_def Let_def
  by (cases windows; cases mac) simp_all

lemma set_deletions:
  assumes "windows \<longrightarrow> WINDOWS_LANGUAGE_CODES N (str_lower N language) = Some wl"
    and "mac \<longrightarrow> MAC_LANGUAGE_CODES N (str_lower N language) = Some ml \<and>
           MAC_LANGUAGE_TO_SCRIPT N ml = Some sc"
  shows "(if mac then delMultilingualName N nid language False True
            (if windows then delMultilingualName N nid language True False f else f)
          else (if windows then delMultilingualName N nid language True False f else f)) =
     f\<lparr>names := filter (stays nid language windows mac wl ml sc) (names f)\<rparr>"
proof -
  have dw: "delMultilingualName N nid language True False g =
      g\<lparr>names := filter (kept nid language True False wl ml sc) (names g)\<rparr>"
    if windows for g
    using delMultilingualName_filter [of True N language wl False ml sc nid g] that assms(1)
    by simp
  have dm: "delMultilingualName N nid language False True g =
      g\<lparr>names := filter (kept nid language False True wl ml sc) (names g)\<rparr>"
    if mac for g
    using delMultilingualName_filter [of False N language wl True ml sc nid g] that assms(2)
    by simp
  show ?thesis
  proof (cases windows)
    case wT: True
    show ?thesis
    proof (cases mac)
      case True
      have "filter (kept nid language False True wl ml sc)
              (filter (kept nid language True False wl ml sc) (names f)) =
            filter (stays nid language True True wl ml sc) (names f)"
        unfolding filter_filter stays_kept [of True True, simplified]
        by (rule filter_cong [OF refl]) (use kept_both in auto)
      with wT True show ?thesis by (simp add: dw dm)
    next
      case False
      with wT show ?thesis by (simp add: dw stays_kept)
    qed
  next
    case wF: False
    show ?thesis
    proof (cases mac)
      case True
      with wF show ?thesis by (simp add: dm stays_kept)
    next
      case False
      with wF show ?thesis by (simp add: stays_none)
    qed
  qed
qed

lemma setMultilingualName_known:
  assumes "windows \<longrightarrow> WINDOWS_LANGUAGE_CODES N (str_lower N language) = Some wl"
    and "mac \<longrightarrow> MAC_LANGUAGE_CODES N (str_lower N language) = Some ml \<and>
           MAC_LANGUAGE_TO_SCRIPT N ml = Some sc \<and> mac_encodable N sc ml s"
  shows "setMultilingualName N nid language s windows mac f =
     f\<lparr>names := filter (stays nid language windows mac wl ml sc) (names f) @
                   added nid s windows mac wl ml sc\<rparr>"
proof -
  from assms(2) have m: "mac \<longrightarrow> MAC_LANGUAGE_CODES N (str_lower N language) = Some ml \<and>
           MAC_LANGUAGE_TO_SCRIPT N ml = Some sc" by simp
  show ?thesis
    unfolding setMultilingualName_def Let_def
    unfolding set_deletions [OF assms(1) m]
    unfolding addMultilingualName_known [OF assms]
    by simp
qed

lemma added_do_not_stay:
  "filter (stays nid language windows mac wl ml sc) (added nid s windows mac wl ml sc) = []"
  by (cases windows; cases mac) (simp_all add: added_def stays_def kept_def)

text \<open>
  C6, amended. When the language has a Windows language code (if Windows is targeted) and
  a Macintosh language code and script in whose encoding the string can be written (if
  Macintosh is targeted), \<open>setMultilingualName\<close> removes, of the records of that name
  id, the Windows records with the encoding id 1 and the Windows code of the language (if
  Windows is targeted) and the Macintosh records with the script and the Macintosh code
  of the language (if Macintosh is targeted), or every record of that name id when the
  language is ALL; it keeps every other record (\<open>stays\<close>) and appends the new records
  (\<open>added\<close>). A second call with the same arguments leaves the font as the first call
  left it.
\<close>

theorem setMultilingualName_idempotent:
  assumes "windows \<longrightarrow> WINDOWS_LANGUAGE_CODES N (str_lower N language) = Some wl"
    and "mac \<longrightarrow> MAC_LANGUAGE_CODES N (str_lower N language) = Some ml \<and>
           MAC_LANGUAGE_TO_SCRIPT N ml = Some sc \<and> mac_encodable N sc ml s"
  shows "setMultilingualName N nid language s windows mac f =
           f\<lparr>names := filter (stays nid language windows mac wl ml sc) (names f) @
                         added nid s windows mac wl ml sc\<rparr> \<and>
         setMultilingualName N nid language s windows mac
           (setMultilingualName N nid language s windows mac f) =
         setMultilingualName N nid language s windows mac f"
proof -
  define P where "P = stays nid language windows mac wl ml sc"
  define A where "A = added nid s windows mac wl ml sc"
  have once: "setMultilingualName N nid language s windows mac g =
      g\<lparr>names := filter P (names g) @ A\<rparr>" for g
    unfolding P_def A_def by (rule setMultilingualName_known [OF assms])
  have A: "filter P A = []"
    unfolding P_def A_def by (rule added_do_not_stay)
  have "setMultilingualName N nid language s windows mac
           (setMultilingualName N nid language s windows mac f) =
         setMultilingualName N nid language s windows mac f"
    unfolding once by (simp add: A)
  with once [of f] show ?thesis unfolding P_def A_def by simp
qed

lemma demo_lib_en:
  "WINDOWS_LANGUAGE_CODES demo_lib (str_lower demo_lib ''en'') = Some 1033"
  "MAC_LANGUAGE_CODES demo_lib (str_lower demo_lib ''en'') = Some 0"
  "MAC_LANGUAGE_TO_SCRIPT demo_lib 0 = Some 0"
  "mac_encodable demo_lib 0 0 ''New''"
  by (simp_all add: demo_lib_def ascii_lower_def)

theorem setMultilingualName_idempotent_witness:
  "WINDOWS_LANGUAGE_CODES demo_lib (str_lower demo_lib ''en'') = Some 1033 \<and>
   MAC_LANGUAGE_CODES demo_lib (str_lower demo_lib ''en'') = Some 0 \<and>
   MAC_LANGUAGE_TO_SCRIPT demo_lib 0 = Some 0 \<and> mac_encodable demo_lib 0 0 ''New'' \<and>
   setMultilingualName demo_lib 1 ''en'' ''New'' True True named_font =
     named_font\<lparr>names :=
       [\<lparr>nameID = 1, platformID = 3, platEncID = 1, langID = 1040, nameString = ''Vecchio''\<rparr>,
        \<lparr>nameID = 2, platformID = 3, platEncID = 1, langID = 1033, nameString = ''Regular''\<rparr>,
        \<lparr>nameID = 1, platformID = 3, platEncID = 1, langID = 1033, nameString = ''New''\<rparr>,
        \<lparr>nameID = 1, platformID = 1, platEncID = 0, langID = 0, nameString = ''New''\<rparr>]\<rparr> \<and>
   setMultilingualName demo_lib 1 ''en'' ''New'' True True
     (setMultilingualName demo_lib 1 ''en'' ''New'' True True named_font) =
   setMultilingualName demo_lib 1 ''en'' ''New'' True True named_font"
proof -
  have w: "True \<longrightarrow> WINDOWS_LANGUAGE_CODES demo_lib (str_lower demo_lib ''en'') = Some 1033"
    using demo_lib_en by simp
  have m: "True \<longrightarrow> MAC_LANGUAGE_CODES demo_lib (str_lower demo_lib ''en'') = Some 0 \<and>
           MAC_LANGUAGE_TO_SCRIPT demo_lib 0 = Some 0 \<and> mac_encodable demo_lib 0 0 ''New''"
    using demo_lib_en by simp
  note t = setMultilingualName_idempotent [OF w m, of 1 named_font]
  have once: "setMultilingualName demo_lib 1 ''en'' ''New'' True True named_font =
     named_font\<lparr>names :=
       [\<lparr>nameID = 1, platformID = 3, platEncID = 1, langID = 1040, nameString = ''Vecchio''\<rparr>,
        \<lparr>nameID = 2, platformID = 3, platEncID = 1, langID = 1033, nameString = ''Regular''\<rparr>,
        \<lparr>nameID = 1, platformID = 3, platEncID = 1, langID = 1033, nameString = ''New''\<rparr>,
        \<lparr>nameID = 1, platformID = 1, platEncID = 0, langID = 0, nameString = ''New''\<rparr>]\<rparr>"
    using t [THEN conjunct1] by (simp add: stays_def kept_def added_def named_font_def)
  show ?thesis
    by (intro conjI demo_lib_en once t [THEN conjunct2])
qed

end
